theory Spec2Isabelle
  imports Complex_Main
begin

section \<open>Strings as the gateway uses them\<close>

text \<open>
  JavaScript strings are modelled as \<open>string\<close> (lists of 8-bit characters). The white
  space that \<open>String.prototype.trim\<close> removes is, within that range: TAB, LF, VT, FF, CR,
  SPACE and NBSP.
\<close>

definition isWhiteSpace :: "char \<Rightarrow> bool" where
  "isWhiteSpace c =
     (c \<in> set [CHR 0x09, CHR 0x0A, CHR 0x0B, CHR 0x0C, CHR 0x0D, CHR 0x20, CHR 0xA0])"

definition trim :: "string \<Rightarrow> string" where
  "trim s = rev (dropWhile isWhiteSpace (rev (dropWhile isWhiteSpace s)))"

definition toLowerChar :: "char \<Rightarrow> char" where
  "toLowerChar c =
     (let n = (of_char c :: nat)
      in if (65 \<le> n \<and> n \<le> 90) \<or> (192 \<le> n \<and> n \<le> 222 \<and> n \<noteq> 215)
         then char_of (n + 32) else c)"

definition toLowerCase :: "string \<Rightarrow> string" where
  "toLowerCase s = map toLowerChar s"

text \<open>\<open>s.includes(sub)\<close>: \<open>sub\<close> occurs in \<open>s\<close> as a contiguous substring.\<close>

fun includesStr :: "string \<Rightarrow> string \<Rightarrow> bool" where
  "includesStr [] sub = (sub = [])"
| "includesStr (c # cs) sub = (take (length sub) (c # cs) = sub \<or> includesStr cs sub)"

section \<open>The LLM gateway: configuration and state\<close>

text \<open>The constants of \<open>RATE_LIMIT\<close>.\<close>

definition requestsPerMinute :: int where "requestsPerMinute = 12"
definition maxRetries :: nat where "maxRetries = 1"
definition baseRetryDelay :: nat where "baseRetryDelay = 2000"
definition dailyQuota :: nat where "dailyQuota = 1500"
definition maxQueueSize :: nat where "maxQueueSize = 3"
definition minInterval :: int where "minInterval = 5000"

record qa =
  question :: string
  answer :: string

text \<open>
  A queue entry holds the closure \<open>() => makeRequest()\<close> of one of the two operations; the
  closure is represented by the arguments it captured.
\<close>

datatype request =
    QuestionRequest string "string list"
  | FeedbackRequest string "qa list"

text \<open>
  The usage ledger as \<open>trackApiUsage\<close> meets it in \<open>localStorage\<close>: either the entry
  can be read, parsed and written back, and holds a count for some calendar days, or one
  of \<open>localStorage.getItem\<close>, \<open>JSON.parse\<close> and \<open>localStorage.setItem\<close> throws
  (storage blocked or full, entry not JSON), with the message of the error. The gateway is
  the only writer of the entry.
\<close>

datatype ledger = Unusable string | Counts "string \<rightharpoonup> nat"

text \<open>
  The mutable state of the module: the credential variable \<open>apiKey\<close>, the two places it is
  loaded from (the build-time variable and the \<open>sessionStorage\<close> entry), the usage
  ledger, and the mutable fields of \<open>RATE_LIMIT\<close>. The \<open>sessionStorage\<close> entry is read
  by an operation only when \<open>apiKey\<close> is empty, in which case the module already read it
  when it was loaded; it is taken to stay readable.
\<close>

record gateway =
  apiKey :: string
  envApiKey :: string
  sessionApiKey :: "string option"
  usage :: ledger
  requestQueue :: "request list"
  inProgress :: int
  lastRequestTime :: int
  queueLock :: bool

text \<open>
  What a call does besides returning: the toasts it shows (by title), the requests it sends
  to the remote endpoint, and the delays it sleeps (milliseconds), in order.
\<close>

datatype event = Toast string | Fetch | Wait nat

text \<open>
  A settled \<open>fetch\<close>: \<open>None\<close> when the promise rejects (network-level failure), otherwise
  the response with its HTTP status and, when the body is JSON that has it, the text at
  \<open>candidates[0].content.parts[0].text\<close>. Reading the body of a response is taken to
  succeed.
\<close>

record response =
  status :: nat
  candidateText :: "string option"

definition ok :: "response \<Rightarrow> bool" where
  "ok r = (200 \<le> status r \<and> status r \<le> 299)"

text \<open>
  The surroundings of one request: the response to the fetch of attempt \<open>k\<close> (the attempt
  made with \<open>retries = k\<close>), the calendar day at that attempt, and the value drawn by
  \<open>Math.random()\<close> when a default question is picked.
\<close>

record net_env =
  fetch :: "nat \<Rightarrow> response option"
  today :: "nat \<Rightarrow> string"
  random :: rat

section \<open>Credential and usage ledger\<close>

definition initApiKey :: "gateway \<Rightarrow> bool \<times> gateway" where
  "initApiKey g =
     (if envApiKey g \<noteq> [] then (True, g\<lparr>apiKey := envApiKey g\<rparr>)
      else case sessionApiKey g of
             Some k \<Rightarrow> if k \<noteq> [] then (True, g\<lparr>apiKey := k\<rparr>) else (False, g)
           | None \<Rightarrow> (False, g))"

text \<open>
  \<open>trackApiUsage\<close> adds one to the count of the day, stores it, warns from ninety percent
  of the quota on, and returns the new count. \<open>Inl\<close> is the error thrown when the ledger
  cannot be used: nothing is stored and no toast is shown.
\<close>

definition trackApiUsage ::
  "string \<Rightarrow> gateway \<Rightarrow> string + nat \<times> gateway \<times> event list"
where
  "trackApiUsage day g =
     (case usage g of
        Unusable err \<Rightarrow> Inl err
      | Counts m \<Rightarrow>
          (let n = (case m day of None \<Rightarrow> 0 | Some c \<Rightarrow> c) + 1;
               g' = g\<lparr>usage := Counts (m(day \<mapsto> n))\<rparr>
           in Inr (n, g',
                   if 9 * dailyQuota \<le> 10 * n then [Toast ''API Quota Warning''] else [])))"

section \<open>Fallback content\<close>

definition defaultQuestions :: "string \<Rightarrow> string list" where
  "defaultQuestions role =
     [''Can you describe a challenging '' @ role @ '' problem you've solved recently?'',
      ''What is your approach to debugging complex issues in '' @ role @ ''?'',
      ''How do you ensure quality in your '' @ role @ '' projects?'',
      ''Tell me about a time you had to learn a new technology quickly for '' @ role @ ''.'',
      ''How do you handle disagreements in a '' @ role @ '' team?'',
      ''Describe your experience with responsive design in '' @ role @ ''.'',
      ''How do you approach compatibility issues in your '' @ role @ '' projects?'',
      ''Explain your process for optimizing performance in '' @ role @ ''.'',
      ''What strategies do you use for testing in '' @ role @ ''?'',
      ''How do you stay updated with the latest trends in '' @ role @ ''?'']"

definition roleOf :: "string \<Rightarrow> string" where
  "roleOf jobDescription =
     (if includesStr (toLowerCase jobDescription) ''software''
      then ''software engineering'' else ''general'')"

definition fixedQuestion :: string where
  "fixedQuestion = ''Can you share an example of a project you're proud of?''"

definition availableQuestions :: "string \<Rightarrow> string list \<Rightarrow> string list" where
  "availableQuestions jobDescription previousQuestions =
     filter (\<lambda>q. q \<notin> set previousQuestions) (defaultQuestions (roleOf jobDescription))"

text \<open>
  \<open>availableQuestions[Math.floor(Math.random() * availableQuestions.length)] || fixed\<close>:
  an index outside the array reads \<open>undefined\<close>, and \<open>undefined\<close> and the empty string
  are both replaced by the fixed sentence.
\<close>

definition getDefaultQuestion :: "string \<Rightarrow> string list \<Rightarrow> rat \<Rightarrow> string" where
  "getDefaultQuestion jobDescription previousQuestions r =
     (let avail = availableQuestions jobDescription previousQuestions;
          i = \<lfloor>r * of_nat (length avail)\<rfloor>
      in if 0 \<le> i \<and> nat i < length avail \<and> avail ! nat i \<noteq> []
         then avail ! nat i else fixedQuestion)"

section \<open>Generating a question\<close>

text \<open>
  \<open>makeRequest\<close> of \<open>generateInterviewQuestion\<close>. \<open>Inl\<close> in the result is the error
  the returned promise is rejected with, \<open>Inr\<close> the text it resolves with. The call of
  \<open>trackApiUsage\<close> stands before the \<open>try\<close>, so its error leaves the function; every
  error inside the \<open>try\<close> is caught: a rejected fetch and a 2xx body without the
  candidate text both end in the default question. A retry is returned without being
  awaited, so its outcome, rejection included, is the outcome of the call.
\<close>

function makeRequest ::
  "net_env \<Rightarrow> string \<Rightarrow> string list \<Rightarrow> nat \<Rightarrow> gateway
     \<Rightarrow> (string + string) \<times> gateway \<times> event list"
where
  "makeRequest env jobDescription previousQuestions retries g =
     (case trackApiUsage (today env retries) g of
        Inl err \<Rightarrow> (Inl err, g, [])
      | Inr (n, g1, ev1) \<Rightarrow>
          if dailyQuota \<le> n then
            (Inr (getDefaultQuestion jobDescription previousQuestions (random env)), g1,
             ev1 @ [Toast ''API Quota Exhausted''])
          else
            (case fetch env retries of
               None \<Rightarrow>
                 (Inr (getDefaultQuestion jobDescription previousQuestions (random env)), g1,
                  ev1 @ [Fetch])
             | Some resp \<Rightarrow>
                 if \<not> ok resp then
                   (if status resp = 429 then
                      (if retries < maxRetries then
                         (case makeRequest env jobDescription previousQuestions
                                 (retries + 1) g1 of
                            (res, g2, ev2) \<Rightarrow>
                              (res, g2,
                               ev1 @ [Fetch, Toast ''Rate Limit Reached'', Wait 33000] @ ev2))
                       else
                         (Inr (getDefaultQuestion jobDescription previousQuestions
                                 (random env)),
                          g1, ev1 @ [Fetch, Toast ''Rate Limit Reached'']))
                    else if retries < maxRetries then
                      (case makeRequest env jobDescription previousQuestions
                              (retries + 1) g1 of
                         (res, g2, ev2) \<Rightarrow>
                           (res, g2,
                            ev1 @ [Fetch, Wait (baseRetryDelay * 2 ^ retries)] @ ev2))
                    else
                      (Inr (getDefaultQuestion jobDescription previousQuestions
                              (random env)),
                       g1, ev1 @ [Fetch, Toast ''Error Generating Question'']))
                 else
                   (case candidateText resp of
                      None \<Rightarrow>
                        (Inr (getDefaultQuestion jobDescription previousQuestions
                                (random env)),
                         g1, ev1 @ [Fetch])
                    | Some t \<Rightarrow> (Inr (trim t), g1, ev1 @ [Fetch]))))"
  by pat_completeness auto
termination
  by (relation "measure (\<lambda>(env, jd, pq, retries, g). maxRetries - retries)") auto

declare makeRequest.simps [simp del]

section \<open>Admission: the request queue\<close>

text \<open>
  What the synchronous part of \<open>processQueue\<close> decides: nothing, a timer that calls it
  again after a delay (milliseconds), or the dispatch of the entry it took from the head
  of the queue.
\<close>

datatype action = NoAction | Throttle int | Dispatch request

definition processQueue :: "int \<Rightarrow> gateway \<Rightarrow> action \<times> gateway" where
  "processQueue now g =
     (if queueLock g \<or> requestQueue g = [] \<or> requestsPerMinute \<le> inProgress g
      then (NoAction, g)
      else
        (let g1 = g\<lparr>queueLock := True\<rparr>;
             elapsed = now - lastRequestTime g1
         in if elapsed < minInterval \<and> 0 < inProgress g1
            then (Throttle (minInterval - elapsed), g1)
            else (case requestQueue g1 of
                    [] \<Rightarrow> (NoAction, g1\<lparr>queueLock := False\<rparr>)
                  | r # rs \<Rightarrow>
                      (Dispatch r,
                       g1\<lparr>requestQueue := rs, inProgress := inProgress g1 + 1,
                          lastRequestTime := now\<rparr>))))"

text \<open>The callback of the throttling timer, and the \<open>finally\<close> handler of a dispatch.\<close>

definition throttleTimer :: "int \<Rightarrow> gateway \<Rightarrow> action \<times> gateway" where
  "throttleTimer now g = processQueue now (g\<lparr>queueLock := False\<rparr>)"

definition requestFinally :: "gateway \<Rightarrow> gateway" where
  "requestFinally g = g\<lparr>inProgress := inProgress g - 1, queueLock := False\<rparr>"

text \<open>
  \<open>queueRequest\<close>: \<open>Inl\<close> is the message of the error the returned promise is rejected
  with; \<open>Inr\<close> is the decision of \<open>processQueue\<close> after the entry was pushed.
\<close>

definition queueRequest :: "request \<Rightarrow> int \<Rightarrow> gateway \<Rightarrow> (string + action) \<times> gateway" where
  "queueRequest r now g =
     (if maxQueueSize \<le> length (requestQueue g)
      then (Inl ''Request queue overloaded'', g)
      else (case processQueue now (g\<lparr>requestQueue := requestQueue g @ [r]\<rparr>) of
              (act, g') \<Rightarrow> (Inr act, g')))"

text \<open>
  The synchronous part of \<open>generateInterviewQuestion\<close>: the credential guard, then the
  queue. \<open>Inl\<close> is a rejection of the returned promise.
\<close>

definition generateInterviewQuestion ::
  "string \<Rightarrow> string list \<Rightarrow> int \<Rightarrow> gateway \<Rightarrow> (string + action) \<times> gateway \<times> event list"
where
  "generateInterviewQuestion jobDescription previousQuestions now g =
     (let g1 = (if apiKey g = [] then snd (initApiKey g) else g)
      in if apiKey g1 = []
         then (Inl ''Gemini API key not set'', g1, [Toast ''API Key Missing''])
         else (case queueRequest (QuestionRequest jobDescription previousQuestions) now g1 of
                 (res, g2) \<Rightarrow> (res, g2, [])))"

section \<open>Generating feedback\<close>

record feedback =
  strengths :: "string list"
  improvements :: "string list"
  overallScore :: int

definition getDefaultFeedback :: feedback where
  "getDefaultFeedback =
     \<lparr>strengths = [''Unable to generate detailed feedback''],
      improvements = [''Please try again with more detailed answers''],
      overallScore = 0\<rparr>"

definition noAnswersFeedback :: feedback where
  "noAnswersFeedback =
     \<lparr>strengths = [''No answers provided''],
      improvements = [''Please provide answers to the interview questions''],
      overallScore = 0\<rparr>"

text \<open>
  The object \<open>JSON.parse\<close> yields from the reply, as far as the code reads it: each of
  the three properties is absent (or null) or has a value. The parser itself is the
  platform's and is a parameter; \<open>None\<close> is a parse error.
\<close>

record parsed_feedback =
  pStrengths :: "string list option"
  pImprovements :: "string list option"
  pOverallScore :: "int option"

text \<open>\<open>feedbackText.replace(/```json|```/g, '')\<close>\<close>

fun removeFences :: "string \<Rightarrow> string" where
  "removeFences [] = []"
| "removeFences (c # cs) =
     (if take 7 (c # cs) = ''```json'' then removeFences (drop 7 (c # cs))
      else if take 3 (c # cs) = ''```'' then removeFences (drop 3 (c # cs))
      else c # removeFences cs)"

definition feedbackOfText :: "(string \<Rightarrow> parsed_feedback option) \<Rightarrow> string \<Rightarrow> feedback" where
  "feedbackOfText jsonParse feedbackText =
     (case jsonParse (trim (removeFences feedbackText)) of
        None \<Rightarrow> getDefaultFeedback
      | Some p \<Rightarrow>
          \<lparr>strengths = (case pStrengths p of Some s \<Rightarrow> s | None \<Rightarrow> [''Response unclear'']),
           improvements = (case pImprovements p of Some s \<Rightarrow> s
                           | None \<Rightarrow> [''Please provide more detailed answers'']),
           overallScore = (case pOverallScore p of Some n \<Rightarrow> n | None \<Rightarrow> 0)\<rparr>)"

text \<open>
  \<open>makeRequest\<close> of \<open>generateInterviewFeedback\<close>, with \<open>trackApiUsage\<close> before the
  \<open>try\<close> as in the question path.
\<close>

function makeFeedbackRequest ::
  "net_env \<Rightarrow> (string \<Rightarrow> parsed_feedback option) \<Rightarrow> nat \<Rightarrow> gateway
     \<Rightarrow> (string + feedback) \<times> gateway \<times> event list"
where
  "makeFeedbackRequest env jsonParse retries g =
     (case trackApiUsage (today env retries) g of
        Inl err \<Rightarrow> (Inl err, g, [])
      | Inr (n, g1, ev1) \<Rightarrow>
          if dailyQuota \<le> n then
            (Inr getDefaultFeedback, g1, ev1 @ [Toast ''API Quota Exhausted''])
          else
            (case fetch env retries of
               None \<Rightarrow> (Inr getDefaultFeedback, g1, ev1 @ [Fetch])
             | Some resp \<Rightarrow>
                 if \<not> ok resp then
                   (if status resp = 429 then
                      (Inr getDefaultFeedback, g1,
                       ev1 @ [Fetch, Toast ''Rate Limit Reached''])
                    else if retries < maxRetries then
                      (case makeFeedbackRequest env jsonParse (retries + 1) g1 of
                         (res, g2, ev2) \<Rightarrow>
                           (res, g2,
                            ev1 @ [Fetch, Wait (baseRetryDelay * 2 ^ retries)] @ ev2))
                    else
                      (Inr getDefaultFeedback, g1,
                       ev1 @ [Fetch, Toast ''Error Generating Feedback'']))
                 else
                   (case candidateText resp of
                      None \<Rightarrow> (Inr getDefaultFeedback, g1, ev1 @ [Fetch])
                    | Some t \<Rightarrow>
                        (Inr (feedbackOfText jsonParse (trim t)), g1, ev1 @ [Fetch]))))"
  by pat_completeness auto
termination
  by (relation "measure (\<lambda>(env, jp, retries, g). maxRetries - retries)") auto

declare makeFeedbackRequest.simps [simp del]

text \<open>
  The synchronous part of \<open>generateInterviewFeedback\<close>: \<open>Inl\<close> is the structure it
  returns without queueing anything (no credential, or no answer in the transcript);
  \<open>Inr\<close> is the result of \<open>queueRequest\<close>.
\<close>

definition hasValidAnswers :: "qa list \<Rightarrow> bool" where
  "hasValidAnswers transcript = list_ex (\<lambda>item. 0 < length (trim (answer item))) transcript"

definition generateInterviewFeedback ::
  "string \<Rightarrow> qa list \<Rightarrow> int \<Rightarrow> gateway
     \<Rightarrow> (feedback + (string + action)) \<times> gateway \<times> event list"
where
  "generateInterviewFeedback jobDescription transcript now g =
     (let g1 = (if apiKey g = [] then snd (initApiKey g) else g)
      in if apiKey g1 = []
         then (Inl getDefaultFeedback, g1, [Toast ''API Key Missing''])
         else if \<not> hasValidAnswers transcript
         then (Inl noAnswersFeedback, g1, [])
         else (case queueRequest (FeedbackRequest jobDescription transcript) now g1 of
                 (res, g2) \<Rightarrow> (Inr res, g2, [])))"

section \<open>Dispatch and awaited calls\<close>

text \<open>
  A dispatch runs the closure of the entry, settles the caller's promise with its outcome
  (\<open>Inl\<close>: rejected with the error, \<open>Inr\<close>: resolved with the value), and then runs the
  \<open>finally\<close> handler.
\<close>

datatype result = QuestionText string | FeedbackResult feedback

fun dispatch ::
  "net_env \<Rightarrow> (string \<Rightarrow> parsed_feedback option) \<Rightarrow> request \<Rightarrow> gateway
     \<Rightarrow> (string + result) \<times> gateway \<times> event list"
where
  "dispatch env jsonParse (QuestionRequest jd pq) g =
     (case makeRequest env jd pq 0 g of
        (res, g', ev) \<Rightarrow> (map_sum id QuestionText res, requestFinally g', ev))"
| "dispatch env jsonParse (FeedbackRequest jd tr) g =
     (case makeFeedbackRequest env jsonParse 0 g of
        (res, g', ev) \<Rightarrow> (map_sum id FeedbackResult res, requestFinally g', ev))"

text \<open>
  How the promise of a call stands once the call and the dispatch it started are over:
  rejected with a message, resolved with a value, or still pending in the queue (with
  the decision \<open>processQueue\<close> took).
\<close>

datatype 'a outcome = Rejected string | Resolved 'a | Queued action

text \<open>
  \<open>await generateInterviewQuestion(...)\<close>. The entry pushed by the call is the one
  dispatched exactly when the queue is empty after the dispatch; the request then runs to
  its end with no other call in between.
\<close>

definition awaitQuestion ::
  "net_env \<Rightarrow> string \<Rightarrow> string list \<Rightarrow> int \<Rightarrow> gateway
     \<Rightarrow> string outcome \<times> gateway \<times> event list"
where
  "awaitQuestion env jd pq now g =
     (case generateInterviewQuestion jd pq now g of
        (Inl msg, g1, ev) \<Rightarrow> (Rejected msg, g1, ev)
      | (Inr act, g1, ev) \<Rightarrow>
          (case act of
             Dispatch r \<Rightarrow>
               if requestQueue g1 = [] then
                 (case makeRequest env jd pq 0 g1 of
                    (Inr t, g2, ev2) \<Rightarrow> (Resolved t, requestFinally g2, ev @ ev2)
                  | (Inl err, g2, ev2) \<Rightarrow> (Rejected err, requestFinally g2, ev @ ev2))
               else (Queued act, g1, ev)
           | _ \<Rightarrow> (Queued act, g1, ev)))"

text \<open>
  A sequence of calls, each awaited (and its dispatch finished) before the next is made.
  A call is given as its surroundings, its two arguments and the time it is made at.
\<close>

fun awaitQuestions ::
  "(net_env \<times> string \<times> string list \<times> int) list \<Rightarrow> gateway
     \<Rightarrow> (string outcome \<times> event list) list \<times> gateway"
where
  "awaitQuestions [] g = ([], g)"
| "awaitQuestions ((env, jd, pq, now) # cs) g =
     (case awaitQuestion env jd pq now g of
        (out, g1, ev) \<Rightarrow>
          (case awaitQuestions cs g1 of (outs, g2) \<Rightarrow> ((out, ev) # outs, g2)))"

definition idle :: "gateway \<Rightarrow> bool" where
  "idle g = (requestQueue g = [] \<and> \<not> queueLock g \<and> inProgress g = 0)"

text \<open>
  Whether the ledger can be used, and the count it holds for a day when it can (a day
  without entry counts as zero, as in \<open>usage[today] || 0\<close>; so does a ledger that cannot
  be used).
\<close>

definition ledgerUsable :: "gateway \<Rightarrow> bool" where
  "ledgerUsable g = (case usage g of Unusable err \<Rightarrow> False | Counts m \<Rightarrow> True)"

definition countToday :: "gateway \<Rightarrow> string \<Rightarrow> nat" where
  "countToday g day =
     (case usage g of
        Unusable err \<Rightarrow> 0
      | Counts m \<Rightarrow> (case m day of None \<Rightarrow> 0 | Some c \<Rightarrow> c))"

text \<open>
  The gateway once \<open>trackApiUsage\<close> has counted a request on a day, the delays a trace
  sleeps and the number of requests it sends, and an attempt whose fetch brings no
  candidate text (it rejects, is not a 2xx, or its body lacks the text).
\<close>

definition counted :: "string \<Rightarrow> gateway \<Rightarrow> gateway" where
  "counted day g =
     (case usage g of
        Unusable err \<Rightarrow> g
      | Counts m \<Rightarrow> g\<lparr>usage := Counts (m(day \<mapsto> countToday g day + 1))\<rparr>)"

fun delayOf :: "event \<Rightarrow> nat list" where
  "delayOf (Wait ms) = [ms]"
| "delayOf (Toast title) = []"
| "delayOf Fetch = []"

definition delays :: "event list \<Rightarrow> nat list" where
  "delays ev = concat (map delayOf ev)"

definition fetches :: "event list \<Rightarrow> nat" where
  "fetches ev = count_list ev Fetch"

definition attemptFails :: "net_env \<Rightarrow> nat \<Rightarrow> bool" where
  "attemptFails env k =
     (case fetch env k of
        None \<Rightarrow> True
      | Some r \<Rightarrow> if ok r then candidateText r = None else True)"

section \<open>Storing a recording\<close>

datatype blob = Blob (blobBytes: "nat list") (blobType: string)

definition newBlob :: "blob list \<Rightarrow> string \<Rightarrow> blob" where
  "newBlob parts ty = Blob (concat (map blobBytes parts)) ty"

text \<open>
  The remote store and the browser as \<open>storeRecording\<close> meets them: whether Firebase is
  configured and \<open>storage\<close> is not null, the host name of the page, whether an upload to
  a path succeeds, the download URL of a path (\<open>None\<close>: the lookup rejects), whether the
  upload and the lookup settle before the five-second timer of the development race,
  whether a session document exists (\<open>None\<close>: the read rejects), whether writing it
  succeeds, and the identifier the browser gives the object URL of a blob.
\<close>

record store_env =
  isFirebaseConfigured :: bool
  storageReady :: bool
  hostname :: string
  uploadBytes :: "string \<Rightarrow> blob \<Rightarrow> bool"
  getDownloadURL :: "string \<Rightarrow> string option"
  settlesInTime :: bool
  getDoc :: "string \<Rightarrow> bool option"
  setDoc :: "string \<Rightarrow> string \<Rightarrow> bool"
  objectUrlId :: "blob \<Rightarrow> string"

definition createObjectURL :: "store_env \<Rightarrow> blob \<Rightarrow> string" where
  "createObjectURL env b = ''blob:'' @ objectUrlId env b"

definition recordingPath :: "string \<Rightarrow> string" where
  "recordingPath sessionId = ''recordings/'' @ sessionId @ ''.webm''"

text \<open>
  The upload followed by the lookup of the download URL; \<open>Inl\<close> is a thrown error.
\<close>

definition uploadAndGetURL :: "store_env \<Rightarrow> string \<Rightarrow> blob \<Rightarrow> string + string" where
  "uploadAndGetURL env sessionId videoBlob =
     (if \<not> uploadBytes env (recordingPath sessionId) videoBlob then Inl ''upload failed''
      else case getDownloadURL env (recordingPath sessionId) of
             None \<Rightarrow> Inl ''download URL failed''
           | Some url \<Rightarrow> Inr url)"

text \<open>
  The body of the outer \<open>try\<close> of \<open>storeRecording\<close>, with the toasts it shows (by title).
  \<open>Inl\<close> is an error thrown out of the body, \<open>Inr\<close> the value returned.
\<close>

definition storeRecordingBody ::
  "store_env \<Rightarrow> string \<Rightarrow> blob list \<Rightarrow> (string + string) \<times> string list"
where
  "storeRecordingBody env sessionId recordingBlobs =
     (if length recordingBlobs = 0 then (Inl ''No recording data provided'', [])
      else
        (let videoBlob = newBlob recordingBlobs ''video/webm'' in
         if \<not> (isFirebaseConfigured env \<and> storageReady env)
         then (Inr (createObjectURL env videoBlob), [])
         else if hostname env = ''localhost'' \<or> hostname env = ''127.0.0.1''
         then
           (case (if settlesInTime env then uploadAndGetURL env sessionId videoBlob
                  else Inl ''Upload timeout - possible CORS issue'') of
              Inr url \<Rightarrow> (Inr url, [])
            | Inl err \<Rightarrow> (Inr (createObjectURL env videoBlob), [''Local Development'']))
         else
           (case uploadAndGetURL env sessionId videoBlob of
              Inl err \<Rightarrow> (Inr (createObjectURL env videoBlob), [''Storage Error''])
            | Inr downloadURL \<Rightarrow>
                (case getDoc env sessionId of
                   None \<Rightarrow> (Inr (createObjectURL env videoBlob), [''Storage Error''])
                 | Some exists \<Rightarrow>
                     if exists \<and> \<not> setDoc env sessionId downloadURL
                     then (Inr (createObjectURL env videoBlob), [''Storage Error''])
                     else (Inr downloadURL, [])))))"

text \<open>
  \<open>storeRecording\<close>: the outer \<open>catch\<close> turns an error of the body into an object URL
  of the blob built from the same fragments. \<open>Inl\<close> would be a rejection of the promise.
\<close>

definition storeRecording ::
  "store_env \<Rightarrow> string \<Rightarrow> blob list \<Rightarrow> (string + string) \<times> string list"
where
  "storeRecording env sessionId recordingBlobs =
     (case storeRecordingBody env sessionId recordingBlobs of
        (Inr url, toasts) \<Rightarrow> (Inr url, toasts)
      | (Inl err, toasts) \<Rightarrow>
          (Inr (createObjectURL env (newBlob recordingBlobs ''video/webm'')),
           toasts @ [''Recording Saved Locally'']))"

text \<open>
  The whole remote path went through: the upload, the lookup of the download URL and,
  outside local development, the update of the session document; in local development,
  upload and lookup before the timer.
\<close>

definition remoteStored :: "store_env \<Rightarrow> string \<Rightarrow> blob \<Rightarrow> bool" where
  "remoteStored env sessionId videoBlob =
     (isFirebaseConfigured env \<and> storageReady env \<and>
      (case uploadAndGetURL env sessionId videoBlob of
         Inl err \<Rightarrow> False
       | Inr url \<Rightarrow>
           if hostname env = ''localhost'' \<or> hostname env = ''127.0.0.1''
           then settlesInTime env
           else (case getDoc env sessionId of
                   None \<Rightarrow> False
                 | Some exists \<Rightarrow> if exists then setDoc env sessionId url else True)))"

section \<open>The interview session view\<close>

record sessionType =
  sessionId :: string
  role :: "string option"
  skillLevel :: "string option"
  jobDescription :: "string option"
  recording :: "blob list option"
  recordingUrl :: "string option"
  transcript :: "qa list option"
  sessionFeedback :: "feedback option"
  isCompleted :: "bool option"

record turn =
  turnRole :: string
  content :: string

text \<open>
  The state of the \<open>InterviewSession\<close> component that its speech handlers read and
  write: the \<open>session\<close> it shares with the page, its own React state, the
  \<open>lastSpeechRef\<close> and whether a response timeout is pending.
\<close>

record interview_session =
  session :: "sessionType option"
  conversation :: "turn list"
  currentQuestion :: string
  userResponse :: string
  aiResponse :: string
  isListening :: bool
  isProcessing :: bool
  waitingForResponse :: bool
  lastSpeech :: string
  responseTimeout :: bool

text \<open>
  What a handler asks of its collaborators: a call of \<open>generateInterviewQuestion\<close>
  (with its three arguments) and a call of \<open>speakText\<close>. (\<open>handleNoResponse\<close> is
  not modelled: the timer that would call it tests \<open>waitingForResponse\<close> of the first
  render, which is false, so it never runs.)
\<close>

datatype ui_event = GatewayCall string "string list" "string list" | SpeakText string

definition didNotCatch :: string where
  "didNotCatch = ''I didn't quite catch that. Could you please rephrase or share more details?''"

definition thankYou :: string where
  "thankYou = ''Thank you for the interview! I'll provide feedback shortly.''"

text \<open>
  \<open>generateAIResponse\<close>. The gateway's answer to the call is the parameter \<open>reply\<close>:
  \<open>Inl\<close> the message of a rejection, \<open>Inr\<close> the text it resolved with. \<open>Inl\<close> in the
  result is a thrown error.
\<close>

definition generateAIResponse ::
  "(string \<Rightarrow> string list \<Rightarrow> string list \<Rightarrow> string + string) \<Rightarrow> string \<Rightarrow> turn list
     \<Rightarrow> string + string"
where
  "generateAIResponse reply userInput conv =
     (case reply [] (map content conv) [] of
        Inl err \<Rightarrow> Inl err
      | Inr response \<Rightarrow>
          if response = [] \<or> trim response = [] then Inl ''Empty response from API''
          else Inr response)"

definition assistantTurn :: "string \<Rightarrow> turn" where
  "assistantTurn t = \<lparr>turnRole = ''assistant'', content = t\<rparr>"

definition userTurn :: "string \<Rightarrow> turn" where
  "userTurn t = \<lparr>turnRole = ''user'', content = t\<rparr>"

text \<open>
  \<open>handleUserSpeech\<close>. The handler is a closure of one render: \<open>captured\<close> is the value
  of \<open>conversation\<close> in that render, which \<open>setConversation(updatedConversation)\<close>
  writes back, whereas \<open>setConversation((prev) => ...)\<close> extends the state as it then
  is. The recogniser is given its handler once, by the effect that runs after the first
  render, so the closure that runs is the one of the first render, where \<open>conversation\<close>
  is still the initial state of \<open>useState\<close>.
\<close>

definition firstRenderConversation :: "turn list" where
  "firstRenderConversation = []"

definition handleUserSpeech ::
  "turn list \<Rightarrow> (string \<Rightarrow> string list \<Rightarrow> string list \<Rightarrow> string + string) \<Rightarrow> string
     \<Rightarrow> interview_session \<Rightarrow> interview_session \<times> ui_event list"
where
  "handleUserSpeech captured reply text v =
     (let updatedConversation = captured @ [userTurn text];
          v1 = v\<lparr>userResponse := text, isListening := False, responseTimeout := False,
                 conversation := updatedConversation, waitingForResponse := False,
                 isProcessing := True\<rparr>;
          call = GatewayCall [] (map content updatedConversation) []
      in case generateAIResponse reply text updatedConversation of
           Inr aiResponseText \<Rightarrow>
             (v1\<lparr>aiResponse := aiResponseText,
                 conversation := conversation v1 @ [assistantTurn aiResponseText],
                 currentQuestion := aiResponseText, isProcessing := False\<rparr>,
              [call, SpeakText aiResponseText])
         | Inl err \<Rightarrow>
             if \<not> list_ex (\<lambda>msg. content msg = didNotCatch) captured then
               (let fallbackResponse =
                      (if includesStr (toLowerCase text) ''done'' then thankYou
                       else didNotCatch)
                in (v1\<lparr>aiResponse := fallbackResponse,
                       conversation := conversation v1 @ [assistantTurn fallbackResponse],
                       currentQuestion := fallbackResponse, isProcessing := False\<rparr>,
                    [call, SpeakText fallbackResponse]))
             else (v1\<lparr>isProcessing := False\<rparr>, [call]))"

text \<open>
  The function that \<open>debounce\<close> wraps, as run for an utterance the recogniser delivered:
  a text equal to the last one processed is skipped.
\<close>

definition debouncedHandleUserSpeech ::
  "turn list \<Rightarrow> (string \<Rightarrow> string list \<Rightarrow> string list \<Rightarrow> string + string) \<Rightarrow> string
     \<Rightarrow> interview_session \<Rightarrow> interview_session \<times> ui_event list"
where
  "debouncedHandleUserSpeech captured reply text v =
     (if text = lastSpeech v then (v, [])
      else handleUserSpeech captured reply text (v\<lparr>lastSpeech := text\<rparr>))"

text \<open>
  The utterances of a session in order, each given with the closure value and the
  gateway's answers at its time, and each handled before the next arrives.
\<close>

fun hearAll ::
  "(turn list \<times> (string \<Rightarrow> string list \<Rightarrow> string list \<Rightarrow> string + string) \<times> string) list
     \<Rightarrow> interview_session \<Rightarrow> interview_session \<times> ui_event list"
where
  "hearAll [] v = (v, [])"
| "hearAll ((captured, reply, text) # us) v =
     (case debouncedHandleUserSpeech captured reply text v of
        (v1, ev1) \<Rightarrow> (case hearAll us v1 of (v2, ev2) \<Rightarrow> (v2, ev1 @ ev2)))"

section \<open>Example inputs\<close>

text \<open>A remote store on which every step succeeds, and one whose session documents cannot be read.\<close>

definition cloudEnv :: store_env where
  "cloudEnv =
     \<lparr>isFirebaseConfigured = True, storageReady = True, hostname = ''interview.example.com'',
      uploadBytes = (\<lambda>p b. True),
      getDownloadURL = (\<lambda>p. Some (''https://storage.example.com/'' @ p)),
      settlesInTime = True,
      getDoc = (\<lambda>sid. Some True),
      setDoc = (\<lambda>sid url. True),
      objectUrlId = (\<lambda>b. ''interview.example.com/0001'')\<rparr>"

definition cloudEnvNoDoc :: store_env where
  "cloudEnvNoDoc = cloudEnv\<lparr>getDoc := (\<lambda>sid. None)\<rparr>"

definition oneChunk :: "blob list" where
  "oneChunk = [Blob [26, 69, 223, 163] ''video/webm'']"

text \<open>A session view waiting for the answer to the greeting.\<close>

definition freshSession :: sessionType where
  "freshSession =
     \<lparr>sessionId = ''s1'', role = Some ''Software Engineer'', skillLevel = Some ''Intermediate'',
      jobDescription = Some [], recording = Some [], recordingUrl = None,
      transcript = Some [], sessionFeedback = None, isCompleted = Some False\<rparr>"

definition greeting :: string where
  "greeting =
     ''Hi! I'm your AI interviewer for the Software Engineer position. How are you today?''"

definition waitingView :: interview_session where
  "waitingView =
     \<lparr>session = Some freshSession, conversation = [assistantTurn greeting],
      currentQuestion = greeting, userResponse = [], aiResponse = [],
      isListening = True, isProcessing = False, waitingForResponse = True,
      lastSpeech = [], responseTimeout = True\<rparr>"

definition replyNext :: "string \<Rightarrow> string list \<Rightarrow> string list \<Rightarrow> string + string" where
  "replyNext jd pq pa = Inr ''Great. What did you build last?''"

definition doingWell :: string where
  "doingWell = ''I'm doing well thanks''"

text \<open>
  Gateways with a credential on a day with a given count in the ledger: one at rest, one
  with a request in flight and a full queue, and one without any credential; and remote
  endpoints that always answer with a question, or always with HTTP 429.
\<close>

definition theDay :: string where "theDay = ''2026-11-02''"

definition keyedGateway :: "nat \<Rightarrow> gateway" where
  "keyedGateway n =
     \<lparr>apiKey = ''AIza-example-key'', envApiKey = [], sessionApiKey = None,
      usage = Counts [theDay \<mapsto> n], requestQueue = [], inProgress = 0,
      lastRequestTime = 0,
      queueLock = False\<rparr>"

definition busyGateway :: "nat \<Rightarrow> gateway" where
  "busyGateway n =
     (keyedGateway n)
       \<lparr>requestQueue := [QuestionRequest [] [], QuestionRequest [] [], QuestionRequest [] []],
        inProgress := 1, queueLock := True\<rparr>"

definition envOk :: net_env where
  "envOk = \<lparr>fetch = (\<lambda>k. Some \<lparr>status = 200, candidateText = Some ''What is a closure?''\<rparr>),
            today = (\<lambda>k. theDay), random = 7 / 10\<rparr>"

definition env429 :: net_env where
  "env429 = \<lparr>fetch = (\<lambda>k. Some \<lparr>status = 429, candidateText = None\<rparr>),
             today = (\<lambda>k. theDay), random = 7 / 10\<rparr>"

definition emptyAnswers :: "qa list" where
  "emptyAnswers = [\<lparr>question = ''How are you today?'', answer = []\<rparr>,
                   \<lparr>question = ''What did you build last?'', answer = ''   ''\<rparr>]"

definition noKeyGateway :: "nat \<Rightarrow> gateway" where
  "noKeyGateway n = (keyedGateway n)\<lparr>apiKey := []\<rparr>"

definition brokenLedgerGateway :: gateway where
  "brokenLedgerGateway =
     (keyedGateway 0)\<lparr>usage := Unusable ''Unexpected token in JSON at position 0''\<rparr>"

definition noParse :: "string \<Rightarrow> parsed_feedback option" where
  "noParse s = None"

section \<open>Properties of the recording store\<close>

text \<open>
  C10: called with an empty fragment list, \<open>storeRecording\<close> does not reject. The body
  throws "No recording data provided"; the outer handler catches it and the call
  resolves with the object URL of an empty blob, after the toast "Recording Saved
  Locally". This holds whatever the remote store does.
\<close>

theorem storeRecording_empty_resolves:
  "storeRecordingBody env sid [] = (Inl ''No recording data provided'', []) \<and>
   storeRecording env sid [] =
     (Inr (createObjectURL env (Blob [] ''video/webm'')), [''Recording Saved Locally''])"
  by (simp add: storeRecording_def storeRecordingBody_def newBlob_def)

theorem storeRecording_empty_resolves_witness:
  "storeRecording cloudEnv ''s1'' [] =
     (Inr ''blob:interview.example.com/0001'', [''Recording Saved Locally''])"
  using storeRecording_empty_resolves [of cloudEnv "''s1''"]
  by (simp add: createObjectURL_def cloudEnv_def)

text \<open>
  C7, as stated, fails in its middle part: the reference is not always the remote
  download URL when the upload succeeds. Outside local development the session document
  is updated after the upload; when reading it fails, the uploaded recording's URL is
  dropped and the local object URL is returned.
\<close>

theorem storeRecording_uploaded_but_local_counterexample:
  "uploadBytes cloudEnvNoDoc (recordingPath ''s1'') (newBlob oneChunk ''video/webm'') \<and>
   getDownloadURL cloudEnvNoDoc (recordingPath ''s1'')
     = Some ''https://storage.example.com/recordings/s1.webm'' \<and>
   storeRecording cloudEnvNoDoc ''s1'' oneChunk
     = (Inr ''blob:interview.example.com/0001'', [''Storage Error''])"
  by (simp add: storeRecording_def storeRecordingBody_def cloudEnvNoDoc_def cloudEnv_def
      oneChunk_def uploadAndGetURL_def recordingPath_def createObjectURL_def newBlob_def)

text \<open>
  C7, amended: for every non-empty list of fragments \<open>storeRecording\<close> never rejects and
  resolves with a non-empty reference (the remote store's download URLs being non-empty):
  the remote download URL when the whole remote path succeeds (upload, lookup of the
  download URL and, outside local development, the update of the session document; in
  local development, upload and lookup within five seconds), and otherwise the object URL
  of the blob concatenated from the fragments.
\<close>

theorem storeRecording_nonempty_reference:
  assumes "recordingBlobs \<noteq> []"
    and "\<forall>p. getDownloadURL env p \<noteq> Some []"
  shows "\<exists>url toasts.
     storeRecording env sid recordingBlobs = (Inr url, toasts) \<and> url \<noteq> [] \<and>
     (if remoteStored env sid (newBlob recordingBlobs ''video/webm'')
      then getDownloadURL env (recordingPath sid) = Some url
      else url = createObjectURL env (newBlob recordingBlobs ''video/webm''))"
proof -
  have nonempty: "getDownloadURL env p = Some u \<Longrightarrow> u \<noteq> []" for p u
    using assms(2) by auto
  show ?thesis
    using assms(1) nonempty
    by (auto simp: storeRecording_def storeRecordingBody_def remoteStored_def
        uploadAndGetURL_def createObjectURL_def Let_def
        split: sum.splits option.splits if_splits)
qed

theorem storeRecording_nonempty_reference_witness:
  "oneChunk \<noteq> [] \<and> (\<forall>p. getDownloadURL cloudEnv p \<noteq> Some []) \<and>
   remoteStored cloudEnv ''s1'' (newBlob oneChunk ''video/webm'') \<and>
   (\<exists>toasts. storeRecording cloudEnv ''s1'' oneChunk
      = (Inr ''https://storage.example.com/recordings/s1.webm'', toasts))"
proof -
  have h1: "oneChunk \<noteq> []"
    by (simp add: oneChunk_def)
  have h2: "\<forall>p. getDownloadURL cloudEnv p \<noteq> Some []"
    by (simp add: cloudEnv_def)
  have h3: "remoteStored cloudEnv ''s1'' (newBlob oneChunk ''video/webm'')"
    by (simp add: remoteStored_def uploadAndGetURL_def cloudEnv_def)
  have h4: "getDownloadURL cloudEnv (recordingPath ''s1'')
      = Some ''https://storage.example.com/recordings/s1.webm''"
    by (simp add: cloudEnv_def recordingPath_def)
  show ?thesis
    using storeRecording_nonempty_reference [OF h1 h2, of "''s1''"] h1 h2 h3 h4
    by auto
qed

section \<open>Properties of the session view\<close>

lemma handleUserSpeech_lastSpeech:
  "lastSpeech (fst (handleUserSpeech captured reply u v)) = lastSpeech v"
  by (simp add: handleUserSpeech_def Let_def split: sum.splits)

lemma debounced_lastSpeech:
  "lastSpeech (fst (debouncedHandleUserSpeech captured reply u v)) = u"
  by (simp add: debouncedHandleUserSpeech_def handleUserSpeech_lastSpeech)

lemma hearAll_append:
  "hearAll (us @ ws) v =
     (case hearAll us v of (v1, ev1) \<Rightarrow>
        (case hearAll ws v1 of (v2, ev2) \<Rightarrow> (v2, ev1 @ ev2)))"
  by (induction us arbitrary: v) (auto split: prod.splits)




text \<open>
  C9: a recognised utterance whose text equals the one processed immediately before is
  ignored: the view is unchanged (no user turn is appended) and no request goes to the
  gateway. So hearing the same text twice in a row, after any history, leaves exactly
  what hearing it once leaves.
\<close>

theorem duplicate_utterance_ignored:
  "(u = lastSpeech v \<longrightarrow> debouncedHandleUserSpeech captured reply u v = (v, [])) \<and>
   hearAll (us @ [(c1, r1, u), (c2, r2, u)]) v = hearAll (us @ [(c1, r1, u)]) v"
proof
  show "u = lastSpeech v \<longrightarrow> debouncedHandleUserSpeech captured reply u v = (v, [])"
    by (simp add: debouncedHandleUserSpeech_def)
next
  have twice: "hearAll [(c1, r1, u), (c2, r2, u)] w = hearAll [(c1, r1, u)] w" for w
  proof -
    obtain w1 ev1 where once: "debouncedHandleUserSpeech c1 r1 u w = (w1, ev1)"
      by (cases "debouncedHandleUserSpeech c1 r1 u w")
    then have "lastSpeech w1 = u"
      using debounced_lastSpeech [of c1 r1 u w] by simp
    then have "debouncedHandleUserSpeech c2 r2 u w1 = (w1, [])"
      by (simp add: debouncedHandleUserSpeech_def)
    with once show ?thesis by simp
  qed
  show "hearAll (us @ [(c1, r1, u), (c2, r2, u)]) v = hearAll (us @ [(c1, r1, u)]) v"
    by (simp only: hearAll_append [of us] twice)
qed

theorem duplicate_utterance_ignored_witness:
  "debouncedHandleUserSpeech firstRenderConversation replyNext doingWell
      (waitingView\<lparr>lastSpeech := doingWell\<rparr>)
     = (waitingView\<lparr>lastSpeech := doingWell\<rparr>, []) \<and>
   hearAll [(firstRenderConversation, replyNext, doingWell),
            (firstRenderConversation, replyNext, doingWell)] waitingView
     = hearAll [(firstRenderConversation, replyNext, doingWell)] waitingView"
  using duplicate_utterance_ignored [where u = doingWell
      and v = "waitingView\<lparr>lastSpeech := doingWell\<rparr>"
      and captured = firstRenderConversation and reply = replyNext and us = "[]"]
    duplicate_utterance_ignored [where u = doingWell and v = waitingView and us = "[]"
      and ?c1.0 = firstRenderConversation and ?r1.0 = replyNext
      and ?c2.0 = firstRenderConversation and ?r2.0 = replyNext]
  by simp

section \<open>Properties of the gateway\<close>

subsection \<open>Ledger, traces and retries\<close>

lemma trackApiUsage_usable:
  assumes "ledgerUsable g"
  shows "trackApiUsage day g =
     Inr (countToday g day + 1, counted day g,
          if 9 * dailyQuota \<le> 10 * (countToday g day + 1)
          then [Toast ''API Quota Warning''] else [])"
  using assms
  by (simp add: trackApiUsage_def ledgerUsable_def countToday_def counted_def Let_def
      split: ledger.splits)

lemma trackApiUsage_unusable:
  "usage g = Unusable err \<Longrightarrow> trackApiUsage day g = Inl err"
  by (simp add: trackApiUsage_def)

lemma ledgerUsable_counted [simp]: "ledgerUsable (counted day g) = ledgerUsable g"
  by (simp add: ledgerUsable_def counted_def split: ledger.splits)

lemma counted_usable: "0 < countToday g day \<Longrightarrow> ledgerUsable g"
  by (simp add: countToday_def ledgerUsable_def split: ledger.splits)

lemma quota_usable: "dailyQuota \<le> countToday g day + 1 \<Longrightarrow> ledgerUsable g"
  by (rule counted_usable [of g day]) (simp add: dailyQuota_def)

lemma delays_simps [simp]:
  "delays [] = []" "delays (Wait ms # ev) = ms # delays ev"
  "delays (Toast t # ev) = delays ev" "delays (Fetch # ev) = delays ev"
  "delays (ev @ ev') = delays ev @ delays ev'"
  by (simp_all add: delays_def)

lemma fetches_simps [simp]:
  "fetches [] = 0" "fetches (Wait ms # ev) = fetches ev"
  "fetches (Toast t # ev) = fetches ev" "fetches (Fetch # ev) = Suc (fetches ev)"
  "fetches (ev @ ev') = fetches ev + fetches ev'"
  by (simp_all add: fetches_def)

lemma fetches_zero_iff: "fetches ev = 0 \<longleftrightarrow> Fetch \<notin> set ev"
  by (induction ev) (auto simp: fetches_def)

lemma retry_induct:
  assumes step: "\<And>k g. (k < maxRetries \<Longrightarrow> P (Suc k) (counted (today env k) g)) \<Longrightarrow> P k g"
  shows "P k g"
proof (induction k arbitrary: g rule: measure_induct_rule [where f = "\<lambda>k. maxRetries - k"])
  case (less k)
  show ?case
  proof (rule step)
    assume "k < maxRetries"
    then have "maxRetries - Suc k < maxRetries - k" by simp
    then show "P (Suc k) (counted (today env k) g)" by (rule less.IH)
  qed
qed

lemma makeRequest_unusable:
  "usage g = Unusable err \<Longrightarrow> makeRequest env jd pq k g = (Inl err, g, [])"
  by (subst makeRequest.simps) (simp add: trackApiUsage_unusable)

lemma makeRequest_at_quota:
  assumes "dailyQuota \<le> countToday g (today env k) + 1"
  shows "makeRequest env jd pq k g =
     (Inr (getDefaultQuestion jd pq (random env)), counted (today env k) g,
      [Toast ''API Quota Warning'', Toast ''API Quota Exhausted''])"
  using assms quota_usable [OF assms]
  by (subst makeRequest.simps) (simp add: trackApiUsage_usable)

lemma makeRequest_below_quota_fetches:
  assumes "ledgerUsable g" and "countToday g (today env k) + 1 < dailyQuota"
  shows "Fetch \<in> set (snd (snd (makeRequest env jd pq k g)))"
  using assms
  by (subst makeRequest.simps) (simp add: trackApiUsage_usable split: option.splits prod.splits)

lemma makeRequest_bounds:
  "fetches (snd (snd (makeRequest env jd pq k g))) \<le> Suc (maxRetries - k) \<and>
   length (delays (snd (snd (makeRequest env jd pq k g)))) \<le> maxRetries - k"
proof (induction k g rule: retry_induct [where env = env])
  case (1 k g)
  show ?case
  proof (cases "usage g")
    case (Unusable err)
    then show ?thesis by (simp add: makeRequest_unusable)
  next
    case (Counts m)
    then have usable: "ledgerUsable g" by (simp add: ledgerUsable_def)
    show ?thesis
      apply (subst (1 2) makeRequest.simps)
      using 1
      by (auto simp: trackApiUsage_usable [OF usable] split: option.splits prod.splits)
  qed
qed

lemma makeRequest_resolves:
  "ledgerUsable g \<Longrightarrow> \<exists>t. fst (makeRequest env jd pq k g) = Inr t"
proof (induction k g rule: retry_induct [where env = env])
  case (1 k g)
  show ?case
    apply (subst makeRequest.simps)
    using 1
    by (auto simp: trackApiUsage_usable split: option.splits prod.splits)
qed

lemma makeRequest_failing_attempts:
  assumes "ledgerUsable g" and "k \<le> maxRetries"
    and "\<forall>j. k \<le> j \<and> j \<le> maxRetries \<longrightarrow> attemptFails env j"
  shows "fst (makeRequest env jd pq k g) = Inr (getDefaultQuestion jd pq (random env))"
  using assms
proof (induction k g rule: retry_induct [where env = env])
  case (1 k g)
  have here: "attemptFails env k"
    using 1(3,4) by simp
  have later: "\<forall>j. Suc k \<le> j \<and> j \<le> maxRetries \<longrightarrow> attemptFails env j"
    using 1(4) by simp
  have retry: "fst (makeRequest env jd pq (Suc k) (counted (today env k) g))
      = Inr (getDefaultQuestion jd pq (random env))" if "k < maxRetries"
    using 1(1) [OF that] 1(2) that later by simp
  show ?case
    apply (subst makeRequest.simps)
    using 1(2) here retry
    by (auto simp: trackApiUsage_usable attemptFails_def
        split: option.splits prod.splits if_splits)
qed

subsection \<open>The queue and awaited calls\<close>

lemma processQueue_dispatch_head:
  "processQueue now g = (Dispatch h, g') \<Longrightarrow> requestQueue g = h # requestQueue g'"
  by (auto simp: processQueue_def Let_def split: if_splits list.splits)

lemma processQueue_other:
  "processQueue now g = (act, g') \<Longrightarrow> (\<And>h. act \<noteq> Dispatch h) \<Longrightarrow> requestQueue g' = requestQueue g"
  by (auto simp: processQueue_def Let_def split: if_splits list.splits)

lemma getDefaultQuestion_in_pool:
  "getDefaultQuestion jd pq r \<in> insert fixedQuestion (set (defaultQuestions (roleOf jd)) - set pq)"
proof -
  let ?avail = "availableQuestions jd pq"
  have "x \<in> set ?avail \<Longrightarrow> x \<in> set (defaultQuestions (roleOf jd)) - set pq" for x
    by (simp add: availableQuestions_def)
  then show ?thesis
    by (auto simp: getDefaultQuestion_def Let_def dest: nth_mem)
qed

lemma defaultQuestions_nonempty: "q \<in> set (defaultQuestions rl) \<Longrightarrow> q \<noteq> []"
  by (auto simp: defaultQuestions_def)

lemma getDefaultQuestion_from_pool:
  assumes "0 \<le> r" and "r < 1" and "availableQuestions jd pq \<noteq> []"
  shows "getDefaultQuestion jd pq r \<in> set (availableQuestions jd pq)"
proof -
  let ?avail = "availableQuestions jd pq"
  let ?n = "length ?avail"
  let ?i = "\<lfloor>r * of_nat ?n\<rfloor>"
  have n: "0 < ?n" using assms(3) by simp
  have "0 \<le> r * of_nat ?n"
    using assms(1) by simp
  then have lo: "0 \<le> ?i"
    by (simp only: zero_le_floor)
  have "r * of_nat ?n < of_nat ?n"
    using assms(2) n by simp
  then have "?i < int ?n"
    by (simp add: floor_less_iff)
  then have hi: "nat ?i < ?n"
    using lo by linarith
  then have mem: "?avail ! nat ?i \<in> set ?avail"
    by (rule nth_mem)
  then have "?avail ! nat ?i \<in> set (defaultQuestions (roleOf jd))"
    by (simp add: availableQuestions_def)
  then have "?avail ! nat ?i \<noteq> []"
    by (rule defaultQuestions_nonempty)
  then have "getDefaultQuestion jd pq r = ?avail ! nat ?i"
    using lo hi by (simp add: getDefaultQuestion_def Let_def)
  then show ?thesis using mem by simp
qed

lemma awaitQuestion_idle:
  assumes "idle g" and "apiKey g \<noteq> []"
  shows "awaitQuestion env jd pq now g =
     (case makeRequest env jd pq 0
             (g\<lparr>queueLock := True, requestQueue := [], inProgress := 1, lastRequestTime := now\<rparr>) of
        (Inr t, g2, ev) \<Rightarrow> (Resolved t, requestFinally g2, ev)
      | (Inl err, g2, ev) \<Rightarrow> (Rejected err, requestFinally g2, ev))"
  using assms
  by (auto simp: awaitQuestion_def generateInterviewQuestion_def queueRequest_def processQueue_def
      idle_def maxQueueSize_def requestsPerMinute_def minInterval_def Let_def
      split: prod.splits sum.splits)

lemma ledgerUsable_control [simp]:
  "ledgerUsable (g\<lparr>requestQueue := q\<rparr>) = ledgerUsable g"
  "ledgerUsable (g\<lparr>inProgress := i\<rparr>) = ledgerUsable g"
  "ledgerUsable (g\<lparr>lastRequestTime := t\<rparr>) = ledgerUsable g"
  "ledgerUsable (g\<lparr>queueLock := b\<rparr>) = ledgerUsable g"
  "ledgerUsable (requestFinally g) = ledgerUsable g"
  by (simp_all add: ledgerUsable_def requestFinally_def)

lemma countToday_control [simp]:
  "countToday (g\<lparr>requestQueue := q\<rparr>) d = countToday g d"
  "countToday (g\<lparr>inProgress := i\<rparr>) d = countToday g d"
  "countToday (g\<lparr>lastRequestTime := t\<rparr>) d = countToday g d"
  "countToday (g\<lparr>queueLock := b\<rparr>) d = countToday g d"
  "countToday (requestFinally g) d = countToday g d"
  by (simp_all add: countToday_def requestFinally_def)

lemma counted_control [simp]:
  "apiKey (counted day g) = apiKey g"
  "requestQueue (counted day g) = requestQueue g"
  "inProgress (counted day g) = inProgress g"
  "queueLock (counted day g) = queueLock g"
  by (simp_all add: counted_def split: ledger.splits)

lemma countToday_counted:
  "ledgerUsable g \<Longrightarrow>
     countToday (counted day g) d = (if d = day then countToday g day + 1 else countToday g d)"
  by (simp add: counted_def countToday_def ledgerUsable_def split: ledger.splits)

lemma awaitQuestion_at_quota:
  assumes "idle g" and "apiKey g \<noteq> []" and "dailyQuota \<le> countToday g (today env 0) + 1"
  shows "\<exists>g'. awaitQuestion env jd pq now g =
           (Resolved (getDefaultQuestion jd pq (random env)), g',
            [Toast ''API Quota Warning'', Toast ''API Quota Exhausted'']) \<and>
         idle g' \<and> apiKey g' = apiKey g \<and>
         countToday g' (today env 0) = countToday g (today env 0) + 1"
proof -
  let ?gd = "g\<lparr>queueLock := True, requestQueue := [], inProgress := 1, lastRequestTime := now\<rparr>"
  have q: "dailyQuota \<le> countToday ?gd (today env 0) + 1"
    using assms(3) by simp
  have usable: "ledgerUsable ?gd"
    using quota_usable [OF q] .
  show ?thesis
    using assms(1,2) usable
    by (simp add: awaitQuestion_idle makeRequest_at_quota [OF q] countToday_counted idle_def)
       (simp add: requestFinally_def)
qed

lemma awaitQuestion_fetch_iff:
  assumes "idle g" and "apiKey g \<noteq> []"
  shows "Fetch \<in> set (snd (snd (awaitQuestion env jd pq now g))) \<longleftrightarrow>
         ledgerUsable g \<and> countToday g (today env 0) + 1 < dailyQuota"
proof (cases "ledgerUsable g")
  case False
  then obtain err where "usage g = Unusable err"
    by (auto simp: ledgerUsable_def split: ledger.splits)
  then show ?thesis
    using False assms by (simp add: awaitQuestion_idle makeRequest_unusable)
next
  case usable: True
  show ?thesis
  proof (cases "countToday g (today env 0) + 1 < dailyQuota")
    case True
    let ?gd = "g\<lparr>queueLock := True, requestQueue := [], inProgress := 1, lastRequestTime := now\<rparr>"
    have "Fetch \<in> set (snd (snd (makeRequest env jd pq 0 ?gd)))"
      by (rule makeRequest_below_quota_fetches) (use True usable in simp_all)
    then show ?thesis
      using True usable assms by (auto simp: awaitQuestion_idle split: prod.splits sum.splits)
  next
    case False
    then have "dailyQuota \<le> countToday g (today env 0) + 1" by simp
    from awaitQuestion_at_quota [OF assms this, of jd pq now] False
    show ?thesis by auto
  qed
qed

lemma awaitQuestions_at_quota:
  assumes "idle g" and "apiKey g \<noteq> []" and "dailyQuota \<le> countToday g day"
    and "\<forall>c \<in> set calls. today (fst c) 0 = day"
  shows "fst (awaitQuestions calls g) =
     map (\<lambda>(env, jd, pq, now).
            (Resolved (getDefaultQuestion jd pq (random env)),
             [Toast ''API Quota Warning'', Toast ''API Quota Exhausted''])) calls"
  using assms
proof (induction calls arbitrary: g)
  case Nil
  then show ?case by simp
next
  case (Cons c cs)
  obtain env jd pq now where c: "c = (env, jd, pq, now)"
    by (cases c) auto
  have day: "today env 0 = day"
    using Cons.prems(4) c by simp
  have "dailyQuota \<le> countToday g (today env 0) + 1"
    using Cons.prems(3) day by simp
  from awaitQuestion_at_quota [OF Cons.prems(1,2) this, of jd pq now]
  obtain g' where first: "awaitQuestion env jd pq now g =
           (Resolved (getDefaultQuestion jd pq (random env)), g',
            [Toast ''API Quota Warning'', Toast ''API Quota Exhausted''])"
    and g': "idle g'" "apiKey g' = apiKey g"
      "countToday g' (today env 0) = countToday g (today env 0) + 1"
    by blast
  have rest: "fst (awaitQuestions cs g') =
     map (\<lambda>(env, jd, pq, now).
            (Resolved (getDefaultQuestion jd pq (random env)),
             [Toast ''API Quota Warning'', Toast ''API Quota Exhausted''])) cs"
    by (rule Cons.IH) (use g' Cons.prems day in auto)
  show ?case
    using first rest by (auto simp: c split: prod.splits)
qed

subsection \<open>Retry policy\<close>

lemma makeRequest_429_retry:
  assumes "ledgerUsable g"
    and "countToday g (today env k) + 1 < dailyQuota" and "fetch env k = Some r"
    and "status r = 429" and "k < maxRetries"
  shows "makeRequest env jd pq k g =
     (case makeRequest env jd pq (k + 1) (counted (today env k) g) of
        (res, g2, ev2) \<Rightarrow>
          (res, g2,
           (if 9 * dailyQuota \<le> 10 * (countToday g (today env k) + 1)
            then [Toast ''API Quota Warning''] else [])
           @ [Fetch, Toast ''Rate Limit Reached'', Wait 33000] @ ev2))"
  using assms by (subst makeRequest.simps) (simp add: trackApiUsage_usable ok_def)

lemma makeFeedbackRequest_unusable:
  "usage g = Unusable err \<Longrightarrow> makeFeedbackRequest env jp k g = (Inl err, g, [])"
  by (subst makeFeedbackRequest.simps) (simp add: trackApiUsage_unusable)

lemma makeFeedbackRequest_bounds:
  "fetches (snd (snd (makeFeedbackRequest env jp k g))) \<le> Suc (maxRetries - k) \<and>
   length (delays (snd (snd (makeFeedbackRequest env jp k g)))) \<le> maxRetries - k"
proof (induction k g rule: retry_induct [where env = env])
  case (1 k g)
  show ?case
  proof (cases "usage g")
    case (Unusable err)
    then show ?thesis by (simp add: makeFeedbackRequest_unusable)
  next
    case (Counts m)
    then have usable: "ledgerUsable g" by (simp add: ledgerUsable_def)
    show ?thesis
      apply (subst (1 2) makeFeedbackRequest.simps)
      using 1
      by (auto simp: trackApiUsage_usable [OF usable] split: option.splits prod.splits)
  qed
qed

lemma makeFeedbackRequest_429:
  assumes "ledgerUsable g"
    and "countToday g (today env k) + 1 < dailyQuota" and "fetch env k = Some r"
    and "status r = 429"
  shows "makeFeedbackRequest env jp k g =
     (Inr getDefaultFeedback, counted (today env k) g,
      (if 9 * dailyQuota \<le> 10 * (countToday g (today env k) + 1)
       then [Toast ''API Quota Warning''] else [])
      @ [Fetch, Toast ''Rate Limit Reached''])"
  using assms by (subst makeFeedbackRequest.simps) (simp add: trackApiUsage_usable ok_def)

lemma env429_fails: "attemptFails env429 j"
  by (simp add: attemptFails_def env429_def ok_def)

lemma keyed_facts:
  "idle (keyedGateway n)" "apiKey (keyedGateway n) \<noteq> []"
  "countToday (keyedGateway n) theDay = n" "ledgerUsable (keyedGateway n)"
  by (simp_all add: keyedGateway_def idle_def countToday_def ledgerUsable_def)

lemma dispatch_at_quota:
  assumes "dailyQuota \<le> countToday h (today env 0) + 1"
  shows "dispatch env jp (QuestionRequest jd pq) h =
     (Inr (QuestionText (getDefaultQuestion jd pq (random env))),
      requestFinally (counted (today env 0) h),
      [Toast ''API Quota Warning'', Toast ''API Quota Exhausted''])"
  using assms by (simp add: makeRequest_at_quota)

subsection \<open>Quota\<close>

text \<open>
  C1, as stated, fails in three ways on a day whose count has reached the quota: a call
  without any credential is rejected, a call made while the queue is full is rejected,
  and a call whose previous questions cover the whole default pool resolves with the
  fixed sentence, which is not a question of the pool.
\<close>

theorem quota_reached_not_always_pool_text_counterexample:
  "dailyQuota \<le> countToday (noKeyGateway 1500) (today envOk 0) \<and>
   fst (awaitQuestion envOk [] [] 7000 (noKeyGateway 1500)) = Rejected ''Gemini API key not set'' \<and>
   dailyQuota \<le> countToday (busyGateway 1500) (today envOk 0) \<and>
   fst (awaitQuestion envOk [] [] 7000 (busyGateway 1500)) = Rejected ''Request queue overloaded'' \<and>
   dailyQuota \<le> countToday (keyedGateway 1500) (today envOk 0) \<and>
   fst (awaitQuestion envOk [] (defaultQuestions ''general'') 7000 (keyedGateway 1500))
     = Resolved fixedQuestion \<and>
   fixedQuestion \<notin> set (defaultQuestions ''general'')"
proof -
  have avail: "availableQuestions [] (defaultQuestions ''general'') = []"
    by (simp add: availableQuestions_def roleOf_def toLowerCase_def)
  have fixed: "getDefaultQuestion [] (defaultQuestions ''general'') (random envOk) = fixedQuestion"
    by (simp add: getDefaultQuestion_def avail)
  have a: "fst (awaitQuestion envOk [] [] 7000 (noKeyGateway 1500)) = Rejected ''Gemini API key not set''"
    by (simp add: awaitQuestion_def generateInterviewQuestion_def initApiKey_def noKeyGateway_def
        keyedGateway_def)
  have b: "fst (awaitQuestion envOk [] [] 7000 (busyGateway 1500)) = Rejected ''Request queue overloaded''"
    by (simp add: awaitQuestion_def generateInterviewQuestion_def queueRequest_def busyGateway_def
        keyedGateway_def maxQueueSize_def)
  have q: "dailyQuota \<le> countToday (keyedGateway 1500) (today envOk 0) + 1"
    by (simp add: keyed_facts envOk_def dailyQuota_def)
  have c: "fst (awaitQuestion envOk [] (defaultQuestions ''general'') 7000 (keyedGateway 1500))
     = Resolved fixedQuestion"
    using awaitQuestion_at_quota [OF keyed_facts(1,2) q, of "[]" "defaultQuestions ''general''" 7000]
    by (auto simp: fixed)
  have d: "fixedQuestion \<notin> set (defaultQuestions ''general'')"
    by (simp add: fixedQuestion_def defaultQuestions_def)
  have e: "dailyQuota \<le> countToday (noKeyGateway 1500) (today envOk 0)"
    "dailyQuota \<le> countToday (busyGateway 1500) (today envOk 0)"
    "dailyQuota \<le> countToday (keyedGateway 1500) (today envOk 0)"
    by (simp_all add: noKeyGateway_def busyGateway_def keyedGateway_def countToday_def envOk_def
        dailyQuota_def)
  show ?thesis
    using a b c d e by blast
qed

text \<open>
  C1, amended: take a gateway at rest with a credential, on a day whose ledger count has
  reached the daily quota, and any sequence of \<open>generateInterviewQuestion\<close> calls made
  on that day, each awaited before the next. Every call resolves with the text of
  \<open>getDefaultQuestion\<close> and sends no request to the network (its only effects are the
  two quota toasts and one more count in the ledger). That text is a question of the
  default pool that is not among the previous questions, or the fixed sentence; with a
  draw in the unit interval it is the fixed sentence only when no such question is left.
  The same holds for a request dispatched from the queue on such a day.
\<close>

theorem quota_reached_calls_fall_back:
  assumes "idle g" and "apiKey g \<noteq> []" and "dailyQuota \<le> countToday g day"
    and "\<forall>c \<in> set calls. today (fst c) 0 = day"
  shows "fst (awaitQuestions calls g) =
           map (\<lambda>(env, jd, pq, now).
                  (Resolved (getDefaultQuestion jd pq (random env)),
                   [Toast ''API Quota Warning'', Toast ''API Quota Exhausted''])) calls \<and>
         getDefaultQuestion jd pq r
           \<in> insert fixedQuestion (set (defaultQuestions (roleOf jd)) - set pq) \<and>
         (0 \<le> r \<and> r < 1 \<and> availableQuestions jd pq \<noteq> [] \<longrightarrow>
            getDefaultQuestion jd pq r \<in> set (availableQuestions jd pq)) \<and>
         (dailyQuota \<le> countToday h (today env 0) \<longrightarrow>
            fst (dispatch env jp (QuestionRequest jd pq) h)
              = Inr (QuestionText (getDefaultQuestion jd pq (random env))) \<and>
            fetches (snd (snd (dispatch env jp (QuestionRequest jd pq) h))) = 0)"
proof (intro conjI impI)
  show "fst (awaitQuestions calls g) =
           map (\<lambda>(env, jd, pq, now).
                  (Resolved (getDefaultQuestion jd pq (random env)),
                   [Toast ''API Quota Warning'', Toast ''API Quota Exhausted''])) calls"
    using assms by (rule awaitQuestions_at_quota)
  show "getDefaultQuestion jd pq r
           \<in> insert fixedQuestion (set (defaultQuestions (roleOf jd)) - set pq)"
    by (rule getDefaultQuestion_in_pool)
next
  assume "0 \<le> r \<and> r < 1 \<and> availableQuestions jd pq \<noteq> []"
  then show "getDefaultQuestion jd pq r \<in> set (availableQuestions jd pq)"
    by (simp add: getDefaultQuestion_from_pool)
next
  assume "dailyQuota \<le> countToday h (today env 0)"
  then have q: "dailyQuota \<le> countToday h (today env 0) + 1" by simp
  show "fst (dispatch env jp (QuestionRequest jd pq) h)
              = Inr (QuestionText (getDefaultQuestion jd pq (random env)))"
    and "fetches (snd (snd (dispatch env jp (QuestionRequest jd pq) h))) = 0"
    by (simp_all only: dispatch_at_quota [OF q] fst_conv snd_conv) simp_all
qed

theorem quota_reached_calls_fall_back_witness:
  "idle (keyedGateway 1500) \<and> apiKey (keyedGateway 1500) \<noteq> [] \<and>
   dailyQuota \<le> countToday (keyedGateway 1500) theDay \<and>
   list_all (\<lambda>c. today (fst c) 0 = theDay)
     [(envOk, ''Software Engineer'', [], 7000::int), (env429, [], [], 9000)] \<and>
   fst (awaitQuestions [(envOk, ''Software Engineer'', [], 7000), (env429, [], [], 9000)]
          (keyedGateway 1500))
     = [(Resolved (getDefaultQuestion ''Software Engineer'' [] (random envOk)),
         [Toast ''API Quota Warning'', Toast ''API Quota Exhausted'']),
        (Resolved (getDefaultQuestion [] [] (random env429)),
         [Toast ''API Quota Warning'', Toast ''API Quota Exhausted''])] \<and>
   (0::rat) \<le> 7 / 10 \<and> (7 / 10 :: rat) < 1 \<and> availableQuestions [] [] \<noteq> [] \<and>
   getDefaultQuestion [] [] (7 / 10) \<in> set (availableQuestions [] []) \<and>
   fetches (snd (snd (dispatch envOk noParse (QuestionRequest [] []) (keyedGateway 1500)))) = 0"
proof -
  have h3: "dailyQuota \<le> countToday (keyedGateway 1500) theDay"
    by (simp add: keyed_facts dailyQuota_def)
  have h4: "\<forall>c \<in> set [(envOk, ''Software Engineer'', [], 7000::int), (env429, [], [], 9000)].
      today (fst c) 0 = theDay"
    by (simp add: envOk_def env429_def)
  have h5: "dailyQuota \<le> countToday (keyedGateway 1500) (today envOk 0)"
    using h3 by (simp add: envOk_def)
  have h6: "availableQuestions [] [] \<noteq> []"
    by (simp add: availableQuestions_def defaultQuestions_def)
  have h7: "(0::rat) \<le> 7 / 10 \<and> (7 / 10 :: rat) < 1"
    by simp
  have h8: "list_all (\<lambda>c. today (fst c) 0 = theDay)
     [(envOk, ''Software Engineer'', [], 7000::int), (env429, [], [], 9000)]"
    using h4 by (simp only: list_all_iff)
  show ?thesis
    using quota_reached_calls_fall_back [OF keyed_facts(1,2) h3 h4,
        of "[]" "[]" "7 / 10" "keyedGateway 1500" envOk noParse]
      keyed_facts(1,2) [of 1500] h3 h5 h6 h7 h8
    by simp
qed

text \<open>
  C2, as stated, fails: with the counter at \<open>dailyQuota - 1\<close> the next call counts
  itself first, reaches the quota, and falls back without sending any request, although
  the remote endpoint would have answered.
\<close>

theorem call_at_threshold_no_request_counterexample:
  "countToday (keyedGateway 1499) (today envOk 0) = dailyQuota - 1 \<and>
   fetch envOk 0 = Some \<lparr>status = 200, candidateText = Some ''What is a closure?''\<rparr> \<and>
   fst (awaitQuestion envOk [] [] 7000 (keyedGateway 1499))
     = Resolved (getDefaultQuestion [] [] (random envOk)) \<and>
   snd (snd (awaitQuestion envOk [] [] 7000 (keyedGateway 1499)))
     = [Toast ''API Quota Warning'', Toast ''API Quota Exhausted'']"
proof -
  have q: "dailyQuota \<le> countToday (keyedGateway 1499) (today envOk 0) + 1"
    by (simp add: keyed_facts envOk_def dailyQuota_def)
  have "countToday (keyedGateway 1499) (today envOk 0) = dailyQuota - 1"
    by (simp add: keyed_facts envOk_def dailyQuota_def)
  moreover have "fetch envOk 0 = Some \<lparr>status = 200, candidateText = Some ''What is a closure?''\<rparr>"
    by (simp add: envOk_def)
  ultimately show ?thesis
    using awaitQuestion_at_quota [OF keyed_facts(1,2) q, of "[]" "[]" 7000]
    by auto
qed

text \<open>
  C2, amended: an awaited call on a gateway at rest with a credential sends a request to
  the network exactly when the ledger can be used and today's counter, before the call,
  is below \<open>dailyQuota - 1\<close>. So the call made at \<open>dailyQuota - 2\<close> still goes to the
  network, and the call made at \<open>dailyQuota - 1\<close> raises the counter to the quota and
  is already pure fallback.
\<close>

theorem call_at_threshold_is_fallback:
  assumes "idle g" and "apiKey g \<noteq> []"
  shows "(Fetch \<in> set (snd (snd (awaitQuestion env jd pq now g))) \<longleftrightarrow>
            ledgerUsable g \<and> countToday g (today env 0) + 1 < dailyQuota) \<and>
         (countToday g (today env 0) + 2 = dailyQuota \<longrightarrow>
            1 \<le> fetches (snd (snd (awaitQuestion env jd pq now g)))) \<and>
         (countToday g (today env 0) + 1 = dailyQuota \<longrightarrow>
            fst (awaitQuestion env jd pq now g)
              = Resolved (getDefaultQuestion jd pq (random env)) \<and>
            fetches (snd (snd (awaitQuestion env jd pq now g))) = 0 \<and>
            countToday (fst (snd (awaitQuestion env jd pq now g))) (today env 0) = dailyQuota)"
proof (intro conjI impI)
  show iff: "Fetch \<in> set (snd (snd (awaitQuestion env jd pq now g))) \<longleftrightarrow>
            ledgerUsable g \<and> countToday g (today env 0) + 1 < dailyQuota"
    using assms by (rule awaitQuestion_fetch_iff)
  show "1 \<le> fetches (snd (snd (awaitQuestion env jd pq now g)))"
    if "countToday g (today env 0) + 2 = dailyQuota"
  proof -
    have "ledgerUsable g"
      by (rule counted_usable [of g "today env 0"]) (use that in \<open>simp add: dailyQuota_def\<close>)
    then have "fetches (snd (snd (awaitQuestion env jd pq now g))) \<noteq> 0"
      using iff that by (simp add: fetches_zero_iff)
    then show ?thesis by simp
  qed
next
  assume at: "countToday g (today env 0) + 1 = dailyQuota"
  then have "dailyQuota \<le> countToday g (today env 0) + 1" by simp
  from awaitQuestion_at_quota [OF assms this, of jd pq now]
  obtain g' where eq: "awaitQuestion env jd pq now g =
           (Resolved (getDefaultQuestion jd pq (random env)), g',
            [Toast ''API Quota Warning'', Toast ''API Quota Exhausted''])"
    and cnt: "countToday g' (today env 0) = countToday g (today env 0) + 1"
    by blast
  show "fst (awaitQuestion env jd pq now g) = Resolved (getDefaultQuestion jd pq (random env))"
    and "fetches (snd (snd (awaitQuestion env jd pq now g))) = 0"
    and "countToday (fst (snd (awaitQuestion env jd pq now g))) (today env 0) = dailyQuota"
    using cnt at by (simp_all add: eq)
qed

theorem call_at_threshold_is_fallback_witness:
  "idle (keyedGateway 1498) \<and> apiKey (keyedGateway 1498) \<noteq> [] \<and>
   countToday (keyedGateway 1498) (today envOk 0) + 2 = dailyQuota \<and>
   1 \<le> fetches (snd (snd (awaitQuestion envOk [] [] 7000 (keyedGateway 1498)))) \<and>
   idle (keyedGateway 1499) \<and> apiKey (keyedGateway 1499) \<noteq> [] \<and>
   countToday (keyedGateway 1499) (today envOk 0) + 1 = dailyQuota \<and>
   fetches (snd (snd (awaitQuestion envOk [] [] 7000 (keyedGateway 1499)))) = 0"
proof -
  have a: "countToday (keyedGateway 1498) (today envOk 0) + 2 = dailyQuota"
    by (simp add: keyed_facts envOk_def dailyQuota_def)
  have b: "countToday (keyedGateway 1499) (today envOk 0) + 1 = dailyQuota"
    by (simp add: keyed_facts envOk_def dailyQuota_def)
  show ?thesis
    using call_at_threshold_is_fallback [where g = "keyedGateway 1498" and env = envOk and jd = "[]" and pq = "[]"
          and now = 7000, OF keyed_facts(1,2)]
      call_at_threshold_is_fallback [where g = "keyedGateway 1499" and env = envOk and jd = "[]" and pq = "[]"
          and now = 7000, OF keyed_facts(1,2)]
      a b keyed_facts(1,2) [of 1498] keyed_facts(1,2) [of 1499]
    by blast
qed

subsection \<open>Retries on HTTP 429\<close>

text \<open>
  C3, as stated, fails for \<open>generateInterviewFeedback\<close>: on HTTP 429 its request
  returns the default feedback at once, after one fetch, with no delay and no retry.
\<close>

theorem feedback_429_not_retried_counterexample:
  "fetch env429 0 = Some \<lparr>status = 429, candidateText = None\<rparr> \<and>
   makeFeedbackRequest env429 noParse 0 (keyedGateway 10)
     = (Inr getDefaultFeedback, counted theDay (keyedGateway 10),
        [Fetch, Toast ''Rate Limit Reached''])"
  by (simp add: makeFeedbackRequest_429 [where r = "\<lparr>status = 429, candidateText = None\<rparr>"]
      env429_def keyed_facts dailyQuota_def)

text \<open>
  C3, amended: neither operation ever sends more than two requests or sleeps more than
  once for one call. For \<open>generateInterviewQuestion\<close>, an HTTP 429 on the first attempt
  makes the gateway wait 33 seconds, exactly once, and run one retry, whose outcome is the
  outcome of the call; when that retry fails too, the result is the default question. For
  \<open>generateInterviewFeedback\<close>, an HTTP 429 on any attempt ends the call with the
  default feedback, without waiting or retrying. (An attempt is answered by the endpoint
  only after it was counted, so the ledger is one that can be used.)
\<close>

theorem rate_limit_retry_policy:
  "fetches (snd (snd (makeRequest env jd pq 0 g))) \<le> 2 \<and>
   length (delays (snd (snd (makeRequest env jd pq 0 g)))) \<le> 1 \<and>
   fetches (snd (snd (makeFeedbackRequest env jp 0 g))) \<le> 2 \<and>
   length (delays (snd (snd (makeFeedbackRequest env jp 0 g)))) \<le> 1 \<and>
   (ledgerUsable g \<and> countToday g (today env 0) + 1 < dailyQuota \<and>
    fetch env 0 = Some r \<and> status r = 429 \<longrightarrow>
      delays (snd (snd (makeRequest env jd pq 0 g))) = [33000] \<and>
      fst (makeRequest env jd pq 0 g)
        = fst (makeRequest env jd pq 1 (counted (today env 0) g)) \<and>
      fetches (snd (snd (makeRequest env jd pq 0 g)))
        = 1 + fetches (snd (snd (makeRequest env jd pq 1 (counted (today env 0) g)))) \<and>
      (attemptFails env 1 \<longrightarrow>
         fst (makeRequest env jd pq 0 g) = Inr (getDefaultQuestion jd pq (random env)))) \<and>
   (ledgerUsable g \<and> countToday g (today env k) + 1 < dailyQuota \<and>
    fetch env k = Some r \<and> status r = 429 \<longrightarrow>
      fst (makeFeedbackRequest env jp k g) = Inr getDefaultFeedback \<and>
      delays (snd (snd (makeFeedbackRequest env jp k g))) = [] \<and>
      fetches (snd (snd (makeFeedbackRequest env jp k g))) = 1)"
proof (intro conjI impI)
  show "fetches (snd (snd (makeRequest env jd pq 0 g))) \<le> 2"
    and "length (delays (snd (snd (makeRequest env jd pq 0 g)))) \<le> 1"
    using makeRequest_bounds [of env jd pq 0 g] by (simp_all add: maxRetries_def)
  show "fetches (snd (snd (makeFeedbackRequest env jp 0 g))) \<le> 2"
    and "length (delays (snd (snd (makeFeedbackRequest env jp 0 g)))) \<le> 1"
    using makeFeedbackRequest_bounds [of env jp 0 g] by (simp_all add: maxRetries_def)
next
  assume h: "ledgerUsable g \<and> countToday g (today env 0) + 1 < dailyQuota \<and>
    fetch env 0 = Some r \<and> status r = 429"
  let ?retry = "makeRequest env jd pq 1 (counted (today env 0) g)"
  have unfold: "makeRequest env jd pq 0 g =
     (case ?retry of
        (res, g2, ev2) \<Rightarrow>
          (res, g2,
           (if 9 * dailyQuota \<le> 10 * (countToday g (today env 0) + 1)
            then [Toast ''API Quota Warning''] else [])
           @ [Fetch, Toast ''Rate Limit Reached'', Wait 33000] @ ev2))"
    using makeRequest_429_retry [of g env 0 r jd pq] h by (simp add: maxRetries_def)
  have quiet: "delays (snd (snd ?retry)) = []"
    using makeRequest_bounds [of env jd pq 1 "counted (today env 0) g"]
    by (simp add: maxRetries_def)
  show "delays (snd (snd (makeRequest env jd pq 0 g))) = [33000]"
    using quiet by (auto simp: unfold split: prod.splits)
  show same: "fst (makeRequest env jd pq 0 g) = fst ?retry"
    by (simp add: unfold split: prod.splits)
  show "fetches (snd (snd (makeRequest env jd pq 0 g))) = 1 + fetches (snd (snd ?retry))"
    by (simp add: unfold split: prod.splits)
  show "fst (makeRequest env jd pq 0 g) = Inr (getDefaultQuestion jd pq (random env))"
    if "attemptFails env 1"
  proof -
    have "\<forall>j. 1 \<le> j \<and> j \<le> maxRetries \<longrightarrow> attemptFails env j"
      using that by (auto simp: maxRetries_def)
    then have "fst ?retry = Inr (getDefaultQuestion jd pq (random env))"
      using h by (intro makeRequest_failing_attempts) (simp_all add: maxRetries_def)
    then show ?thesis using same by simp
  qed
next
  assume h: "ledgerUsable g \<and> countToday g (today env k) + 1 < dailyQuota \<and>
    fetch env k = Some r \<and> status r = 429"
  then have eq: "makeFeedbackRequest env jp k g =
     (Inr getDefaultFeedback, counted (today env k) g,
      (if 9 * dailyQuota \<le> 10 * (countToday g (today env k) + 1)
       then [Toast ''API Quota Warning''] else [])
      @ [Fetch, Toast ''Rate Limit Reached''])"
    using makeFeedbackRequest_429 [of g env k r jp] by simp
  show "fst (makeFeedbackRequest env jp k g) = Inr getDefaultFeedback"
    and "delays (snd (snd (makeFeedbackRequest env jp k g))) = []"
    and "fetches (snd (snd (makeFeedbackRequest env jp k g))) = 1"
    by (simp_all add: eq)
qed

theorem rate_limit_retry_policy_witness:
  "ledgerUsable (keyedGateway 10) \<and>
   countToday (keyedGateway 10) (today env429 0) + 1 < dailyQuota \<and>
   fetch env429 0 = Some \<lparr>status = 429, candidateText = None\<rparr> \<and>
   attemptFails env429 1 \<and>
   delays (snd (snd (makeRequest env429 [] [] 0 (keyedGateway 10)))) = [33000] \<and>
   fst (makeRequest env429 [] [] 0 (keyedGateway 10))
     = Inr (getDefaultQuestion [] [] (random env429)) \<and>
   fetches (snd (snd (makeFeedbackRequest env429 noParse 0 (keyedGateway 10)))) = 1"
proof -
  have h0: "ledgerUsable (keyedGateway 10)"
    by (rule keyed_facts)
  have h1: "countToday (keyedGateway 10) (today env429 0) + 1 < dailyQuota"
    by (simp add: env429_def keyed_facts dailyQuota_def)
  have h2: "fetch env429 0 = Some \<lparr>status = 429, candidateText = None\<rparr>"
    by (simp add: env429_def)
  have h3: "status \<lparr>status = 429, candidateText = None\<rparr> = 429"
    by simp
  show ?thesis
    using rate_limit_retry_policy [of env429 "[]" "[]" "keyedGateway 10" noParse
        "\<lparr>status = 429, candidateText = None\<rparr>" 0] h0 h1 h2 h3 env429_fails [of 1]
    by blast
qed

subsection \<open>Rejections\<close>

text \<open>
  C4, as stated, fails in its last part: a missing credential is not the only input that
  is rejected. With a credential set and the queue full, the call is rejected with
  "Request queue overloaded". And with a credential set and the gateway at rest, a ledger
  entry that is not JSON makes \<open>trackApiUsage\<close> throw outside the \<open>try\<close> of
  \<open>makeRequest\<close>, so the dispatched call is rejected with that error, before any request
  is sent.
\<close>

theorem queue_overload_rejects_question_counterexample:
  "apiKey (busyGateway 10) \<noteq> [] \<and> length (requestQueue (busyGateway 10)) = maxQueueSize \<and>
   awaitQuestion envOk ''Software Engineer'' [] 7000 (busyGateway 10)
     = (Rejected ''Request queue overloaded'', busyGateway 10, []) \<and>
   apiKey brokenLedgerGateway \<noteq> [] \<and> idle brokenLedgerGateway \<and>
   fst (awaitQuestion envOk ''Software Engineer'' [] 7000 brokenLedgerGateway)
     = Rejected ''Unexpected token in JSON at position 0'' \<and>
   snd (snd (awaitQuestion envOk ''Software Engineer'' [] 7000 brokenLedgerGateway)) = []"
proof -
  have busy: "apiKey (busyGateway 10) \<noteq> [] \<and>
      length (requestQueue (busyGateway 10)) = maxQueueSize \<and>
      awaitQuestion envOk ''Software Engineer'' [] 7000 (busyGateway 10)
        = (Rejected ''Request queue overloaded'', busyGateway 10, [])"
    by (simp add: awaitQuestion_def generateInterviewQuestion_def queueRequest_def
        busyGateway_def keyedGateway_def maxQueueSize_def)
  have rest: "idle brokenLedgerGateway" "apiKey brokenLedgerGateway \<noteq> []"
    by (simp_all add: brokenLedgerGateway_def keyedGateway_def idle_def)
  have broken: "makeRequest envOk ''Software Engineer'' [] 0
        (brokenLedgerGateway\<lparr>queueLock := True, requestQueue := [], inProgress := 1,
           lastRequestTime := 7000\<rparr>)
      = (Inl ''Unexpected token in JSON at position 0'',
         brokenLedgerGateway\<lparr>queueLock := True, requestQueue := [], inProgress := 1,
           lastRequestTime := 7000\<rparr>, [])"
    by (rule makeRequest_unusable) (simp add: brokenLedgerGateway_def)
  have "awaitQuestion envOk ''Software Engineer'' [] 7000 brokenLedgerGateway
      = (Rejected ''Unexpected token in JSON at position 0'',
         requestFinally
           (brokenLedgerGateway\<lparr>queueLock := True, requestQueue := [], inProgress := 1,
              lastRequestTime := 7000\<rparr>), [])"
    by (simp only: awaitQuestion_idle [OF rest] broken) simp
  then show ?thesis
    using busy rest by simp
qed

text \<open>
  C4, amended: provided the usage ledger can be read and written,
  \<open>generateInterviewQuestion\<close> never rejects for quota or availability failures. It is
  rejected in exactly two cases, both before any request is dispatched: no credential is
  available (''Gemini API key not set''), or a credential is available and the queue
  already holds \<open>maxQueueSize\<close> entries (''Request queue overloaded''). A request that is
  dispatched resolves with a text, whatever the remote endpoint does, and so does a call
  on a gateway at rest with a credential; when both attempts fail remotely, or the quota
  is exhausted, that text is the default question. (What a call does when the ledger
  cannot be used is not part of this statement.)
\<close>

theorem question_rejects_only_before_dispatch:
  "(fst (generateInterviewQuestion jd pq now g) = Inl msg \<longleftrightarrow>
      (if apiKey g = [] \<and> envApiKey g = [] \<and> sessionApiKey g \<in> {None, Some []}
       then msg = ''Gemini API key not set''
       else maxQueueSize \<le> length (requestQueue g) \<and> msg = ''Request queue overloaded'')) \<and>
   (ledgerUsable g \<longrightarrow>
      (\<exists>t. fst (dispatch env jp (QuestionRequest jd pq) g) = Inr (QuestionText t))) \<and>
   (ledgerUsable g \<and> idle g \<and> apiKey g \<noteq> [] \<longrightarrow>
      (\<exists>t g' ev. awaitQuestion env jd pq now g = (Resolved t, g', ev))) \<and>
   (ledgerUsable g \<and> attemptFails env 0 \<and> attemptFails env 1 \<longrightarrow>
      fst (makeRequest env jd pq 0 g) = Inr (getDefaultQuestion jd pq (random env))) \<and>
   (dailyQuota \<le> countToday g (today env k) + 1 \<longrightarrow>
      fst (makeRequest env jd pq k g) = Inr (getDefaultQuestion jd pq (random env)))"
proof (intro conjI impI)
  show "fst (generateInterviewQuestion jd pq now g) = Inl msg \<longleftrightarrow>
      (if apiKey g = [] \<and> envApiKey g = [] \<and> sessionApiKey g \<in> {None, Some []}
       then msg = ''Gemini API key not set''
       else maxQueueSize \<le> length (requestQueue g) \<and> msg = ''Request queue overloaded'')"
    by (auto simp: generateInterviewQuestion_def initApiKey_def queueRequest_def Let_def
        split: option.splits prod.splits)
next
  assume "ledgerUsable g"
  then obtain t where "fst (makeRequest env jd pq 0 g) = Inr t"
    using makeRequest_resolves [of g env jd pq 0] by blast
  then show "\<exists>t. fst (dispatch env jp (QuestionRequest jd pq) g) = Inr (QuestionText t)"
    by (auto split: prod.splits)
next
  assume h: "ledgerUsable g \<and> idle g \<and> apiKey g \<noteq> []"
  let ?gd = "g\<lparr>queueLock := True, requestQueue := [], inProgress := 1, lastRequestTime := now\<rparr>"
  have "ledgerUsable ?gd" using h by simp
  then obtain t where "fst (makeRequest env jd pq 0 ?gd) = Inr t"
    using makeRequest_resolves [of ?gd env jd pq 0] by blast
  then show "\<exists>t g' ev. awaitQuestion env jd pq now g = (Resolved t, g', ev)"
    using h by (auto simp: awaitQuestion_idle split: prod.splits sum.splits)
next
  assume h: "ledgerUsable g \<and> attemptFails env 0 \<and> attemptFails env 1"
  have "attemptFails env j" if "j \<le> maxRetries" for j
  proof -
    have "j = 0 \<or> j = 1" using that by (auto simp: maxRetries_def)
    then show ?thesis using h by auto
  qed
  then show "fst (makeRequest env jd pq 0 g) = Inr (getDefaultQuestion jd pq (random env))"
    using h by (intro makeRequest_failing_attempts) simp_all
next
  assume "dailyQuota \<le> countToday g (today env k) + 1"
  then show "fst (makeRequest env jd pq k g) = Inr (getDefaultQuestion jd pq (random env))"
    by (simp add: makeRequest_at_quota)
qed

theorem question_rejects_only_before_dispatch_witness:
  "fst (generateInterviewQuestion [] [] 7000 (noKeyGateway 10)) = Inl ''Gemini API key not set'' \<and>
   fst (generateInterviewQuestion [] [] 7000 (busyGateway 10)) = Inl ''Request queue overloaded'' \<and>
   ledgerUsable (keyedGateway 10) \<and> idle (keyedGateway 10) \<and> apiKey (keyedGateway 10) \<noteq> [] \<and>
   (\<exists>t. fst (dispatch env429 noParse (QuestionRequest [] []) (keyedGateway 10))
           = Inr (QuestionText t)) \<and>
   (\<exists>t g' ev. awaitQuestion env429 [] [] 7000 (keyedGateway 10) = (Resolved t, g', ev)) \<and>
   attemptFails env429 0 \<and> attemptFails env429 1 \<and>
   fst (makeRequest env429 [] [] 0 (keyedGateway 10))
     = Inr (getDefaultQuestion [] [] (random env429)) \<and>
   dailyQuota \<le> countToday (keyedGateway 1500) (today envOk 0) + 1 \<and>
   fst (makeRequest envOk [] [] 0 (keyedGateway 1500))
     = Inr (getDefaultQuestion [] [] (random envOk))"
proof -
  have nokey: "apiKey (noKeyGateway 10) = [] \<and> envApiKey (noKeyGateway 10) = [] \<and>
      sessionApiKey (noKeyGateway 10) \<in> {None, Some []}"
    by (simp add: noKeyGateway_def keyedGateway_def)
  have busy: "\<not> (apiKey (busyGateway 10) = [] \<and> envApiKey (busyGateway 10) = [] \<and>
      sessionApiKey (busyGateway 10) \<in> {None, Some []})"
    "maxQueueSize \<le> length (requestQueue (busyGateway 10))"
    by (simp_all add: busyGateway_def keyedGateway_def maxQueueSize_def)
  have q: "dailyQuota \<le> countToday (keyedGateway 1500) (today envOk 0) + 1"
    by (simp add: keyed_facts envOk_def dailyQuota_def)
  show ?thesis
    using question_rejects_only_before_dispatch
        [of "[]" "[]" 7000 "noKeyGateway 10" "''Gemini API key not set''" env429 noParse 0]
      question_rejects_only_before_dispatch
        [of "[]" "[]" 7000 "busyGateway 10" "''Request queue overloaded''" env429 noParse 0]
      question_rejects_only_before_dispatch
        [of "[]" "[]" 7000 "keyedGateway 10" "[]" env429 noParse 0]
      question_rejects_only_before_dispatch
        [of "[]" "[]" 7000 "keyedGateway 1500" "[]" envOk noParse 0]
      nokey busy q env429_fails [of 0] env429_fails [of 1] keyed_facts(1,2,4) [of 10]
    by (simp del: insert_iff)
qed

text \<open>
  C5: a request submitted to \<open>queueRequest\<close> while the queue holds \<open>maxQueueSize\<close>
  entries (or more) is rejected at once with "Request queue overloaded" and the gateway
  is left exactly as it was, so the request is never in the queue; and only entries of
  the queue are ever dispatched. Below the bound the request is appended to the queue
  (and, when it is then the head of an unlocked queue, taken out again for dispatch).
  Both operations reach \<open>queueRequest\<close> once a credential is set.
\<close>

theorem queue_overload_rejected:
  "(maxQueueSize \<le> length (requestQueue g) \<longrightarrow>
      queueRequest r now g = (Inl ''Request queue overloaded'', g)) \<and>
   (length (requestQueue g) < maxQueueSize \<longrightarrow>
      (\<exists>act g'. queueRequest r now g = (Inr act, g') \<and>
         (case act of
            Dispatch h \<Rightarrow> h # requestQueue g' = requestQueue g @ [r]
          | NoAction \<Rightarrow> requestQueue g' = requestQueue g @ [r]
          | Throttle d \<Rightarrow> requestQueue g' = requestQueue g @ [r]))) \<and>
   (processQueue now g = (Dispatch h, g') \<longrightarrow> requestQueue g = h # requestQueue g') \<and>
   (apiKey g \<noteq> [] \<and> maxQueueSize \<le> length (requestQueue g) \<longrightarrow>
      generateInterviewQuestion jd pq now g = (Inl ''Request queue overloaded'', g, []) \<and>
      (hasValidAnswers tr \<longrightarrow>
         generateInterviewFeedback jd tr now g = (Inr (Inl ''Request queue overloaded''), g, [])))"
proof (intro conjI impI)
  assume "length (requestQueue g) < maxQueueSize"
  obtain act g' where pq: "processQueue now (g\<lparr>requestQueue := requestQueue g @ [r]\<rparr>) = (act, g')"
    by (cases "processQueue now (g\<lparr>requestQueue := requestQueue g @ [r]\<rparr>)")
  have "case act of
            Dispatch h \<Rightarrow> h # requestQueue g' = requestQueue g @ [r]
          | NoAction \<Rightarrow> requestQueue g' = requestQueue g @ [r]
          | Throttle d \<Rightarrow> requestQueue g' = requestQueue g @ [r]"
    using processQueue_dispatch_head [of now "g\<lparr>requestQueue := requestQueue g @ [r]\<rparr>" _ g']
      processQueue_other [OF pq] pq
    by (cases act) auto
  then show "\<exists>act g'. queueRequest r now g = (Inr act, g') \<and>
         (case act of
            Dispatch h \<Rightarrow> h # requestQueue g' = requestQueue g @ [r]
          | NoAction \<Rightarrow> requestQueue g' = requestQueue g @ [r]
          | Throttle d \<Rightarrow> requestQueue g' = requestQueue g @ [r])"
    using pq \<open>length (requestQueue g) < maxQueueSize\<close> by (simp add: queueRequest_def)
qed (auto simp: queueRequest_def generateInterviewQuestion_def generateInterviewFeedback_def
      processQueue_dispatch_head)

theorem queue_overload_rejected_witness:
  "maxQueueSize \<le> length (requestQueue (busyGateway 10)) \<and>
   queueRequest (QuestionRequest ''Software Engineer'' []) 7000 (busyGateway 10)
     = (Inl ''Request queue overloaded'', busyGateway 10) \<and>
   apiKey (busyGateway 10) \<noteq> [] \<and>
   generateInterviewQuestion ''Software Engineer'' [] 7000 (busyGateway 10)
     = (Inl ''Request queue overloaded'', busyGateway 10, []) \<and>
   length (requestQueue (keyedGateway 10)) < maxQueueSize \<and>
   (\<exists>act g'. queueRequest (QuestionRequest ''Software Engineer'' []) 7000 (keyedGateway 10)
                = (Inr act, g') \<and>
      (case act of
         Dispatch h \<Rightarrow>
           h # requestQueue g'
             = requestQueue (keyedGateway 10) @ [QuestionRequest ''Software Engineer'' []]
       | NoAction \<Rightarrow>
           requestQueue g'
             = requestQueue (keyedGateway 10) @ [QuestionRequest ''Software Engineer'' []]
       | Throttle d \<Rightarrow>
           requestQueue g'
             = requestQueue (keyedGateway 10) @ [QuestionRequest ''Software Engineer'' []]))"
proof -
  have full: "maxQueueSize \<le> length (requestQueue (busyGateway 10))"
    "apiKey (busyGateway 10) \<noteq> []"
    by (simp_all add: busyGateway_def keyedGateway_def maxQueueSize_def)
  have room: "length (requestQueue (keyedGateway 10)) < maxQueueSize"
    by (simp add: keyedGateway_def maxQueueSize_def)
  show ?thesis
    using queue_overload_rejected [of "busyGateway 10" "QuestionRequest ''Software Engineer'' []" 7000 _ _
        "''Software Engineer''" "[]"]
      queue_overload_rejected [of "keyedGateway 10" "QuestionRequest ''Software Engineer'' []" 7000]
      full room
    by blast
qed

subsection \<open>Feedback without answers\<close>

text \<open>
  C6: when every answer of the transcript is empty after trimming,
  \<open>generateInterviewFeedback\<close> returns at once a structure with \<open>overallScore = 0\<close>:
  no request is sent, nothing is queued and the ledger is not touched.
\<close>

theorem feedback_without_answers_is_zero:
  assumes "\<forall>item \<in> set tr. trim (answer item) = []"
  shows "\<exists>f g' ev. generateInterviewFeedback jd tr now g = (Inl f, g', ev) \<and>
           overallScore f = 0 \<and> Fetch \<notin> set ev \<and> usage g' = usage g \<and>
           requestQueue g' = requestQueue g"
proof -
  have "\<not> hasValidAnswers tr"
    using assms by (simp add: hasValidAnswers_def list_ex_iff)
  then show ?thesis
    by (auto simp: generateInterviewFeedback_def Let_def initApiKey_def getDefaultFeedback_def
        noAnswersFeedback_def split: option.splits)
qed

theorem feedback_without_answers_is_zero_witness:
  "list_all (\<lambda>item. trim (answer item) = []) emptyAnswers \<and>
   generateInterviewFeedback ''Software Engineer'' emptyAnswers 7000 (keyedGateway 10)
     = (Inl noAnswersFeedback, keyedGateway 10, []) \<and>
   overallScore noAnswersFeedback = 0"
proof -
  have h: "\<forall>item \<in> set emptyAnswers. trim (answer item) = []"
    by (simp add: emptyAnswers_def trim_def isWhiteSpace_def)
  have "\<not> hasValidAnswers emptyAnswers"
    using h by (simp add: hasValidAnswers_def list_ex_iff)
  then have eq: "generateInterviewFeedback ''Software Engineer'' emptyAnswers 7000 (keyedGateway 10)
     = (Inl noAnswersFeedback, keyedGateway 10, [])"
    by (simp add: generateInterviewFeedback_def keyedGateway_def)
  show ?thesis
    using feedback_without_answers_is_zero [OF h, of "''Software Engineer''" 7000 "keyedGateway 10"] h eq
    by (simp add: list_all_iff noAnswersFeedback_def)
qed

end
